theory Spec2Isabelle
  imports Complex_Main
begin

section \<open>Values of the program\<close>

text \<open>
  The module \<^verbatim>\<open>code/sampling/transforms.py\<close> is Python over numpy and scipy. Python
  floats and numpy's float arrays are modelled by \<^typ>\<open>real\<close>: the rounding of floating-point
  arithmetic is outside the model. Every exception the interpreter or a library raises is a
  value of \<open>error\<close>, and a function that can raise returns \<open>error + 'a\<close>.
\<close>

datatype error = IndexError | TypeError | ValueError | AxisError | RuntimeError

text \<open>
  The arguments a caller hands to the constructors are dynamically typed. \<open>pyval\<close> holds
  the values the constructors distinguish: \<^verbatim>\<open>None\<close>, an \<^verbatim>\<open>int\<close>, a \<^verbatim>\<open>float\<close>, a list and a
  tuple.
\<close>

datatype pyval =
    PyNone
  | PyInt int
  | PyFloat real
  | PyList "pyval list"
  | PyTuple "pyval list"

text \<open>Truth value of an object, as \<^verbatim>\<open>if rotation_range:\<close> tests it.\<close>

fun truthy :: "pyval \<Rightarrow> bool" where
  "truthy PyNone = False"
| "truthy (PyInt i) = (i \<noteq> 0)"
| "truthy (PyFloat r) = (r \<noteq> 0)"
| "truthy (PyList xs) = (xs \<noteq> [])"
| "truthy (PyTuple xs) = (xs \<noteq> [])"

text \<open>The number an object stands for in arithmetic and comparisons; anything else raises
  \<^verbatim>\<open>TypeError\<close> (Python 3).\<close>

fun num_of :: "pyval \<Rightarrow> error + real" where
  "num_of (PyInt i) = Inr (real_of_int i)"
| "num_of (PyFloat r) = Inr r"
| "num_of _ = Inl TypeError"

text \<open>\<^verbatim>\<open>v[i]\<close> for a non-negative literal index \<open>i\<close>.\<close>

fun subscript :: "pyval \<Rightarrow> nat \<Rightarrow> error + pyval" where
  "subscript (PyList xs) i = (if i < length xs then Inr (xs ! i) else Inl IndexError)"
| "subscript (PyTuple xs) i = (if i < length xs then Inr (xs ! i) else Inl IndexError)"
| "subscript _ i = Inl TypeError"

text \<open>\<^verbatim>\<open>isinstance(v, list) or isinstance(v, tuple)\<close> and \<^verbatim>\<open>isinstance(v, float)\<close>.\<close>

fun is_list_or_tuple :: "pyval \<Rightarrow> bool" where
  "is_list_or_tuple (PyList xs) = True"
| "is_list_or_tuple (PyTuple xs) = True"
| "is_list_or_tuple _ = False"

fun is_float :: "pyval \<Rightarrow> bool" where
  "is_float (PyFloat r) = True"
| "is_float _ = False"

text \<open>Sequencing of computations that can raise.\<close>

definition ebind :: "error + 'a \<Rightarrow> ('a \<Rightarrow> error + 'b) \<Rightarrow> error + 'b" where
  "ebind m f = (case m of Inl e \<Rightarrow> Inl e | Inr x \<Rightarrow> f x)"

subsection \<open>The process-wide random source\<close>

text \<open>
  \<^verbatim>\<open>random.uniform(a, b)\<close> is \<^verbatim>\<open>a + (b - a) * random.random()\<close>, and every call of
  \<^verbatim>\<open>random.random()\<close> consumes one draw of the global generator. The generator is the
  sequence of its draws together with the number of draws consumed so far.
\<close>

record rng =
  source :: "nat \<Rightarrow> real"
  calls :: nat

definition random_uniform :: "real \<Rightarrow> real \<Rightarrow> rng \<Rightarrow> real \<times> rng" where
  "random_uniform a b g = (a + (b - a) * source g (calls g), g\<lparr>calls := Suc (calls g)\<rparr>)"

text \<open>\<^verbatim>\<open>random.random()\<close> returns a float of the half-open interval from 0 to 1.\<close>

definition unit_draws :: "rng \<Rightarrow> bool" where
  "unit_draws g = (\<forall>n. 0 \<le> source g n \<and> source g n < 1)"

subsection \<open>Homogeneous 3-by-3 matrices\<close>

text \<open>
  Every matrix of the module is a literal \<^verbatim>\<open>np.array\<close> of three rows of three entries, or a
  product of such arrays. \<open>Mat3\<close> lists the entries row by row; \<open>np_dot\<close> is \<^verbatim>\<open>np.dot\<close> on
  two such arrays, the matrix product.
\<close>

datatype mat3 =
  Mat3 (m00: real) (m01: real) (m02: real)
       (m10: real) (m11: real) (m12: real)
       (m20: real) (m21: real) (m22: real)

fun np_dot :: "mat3 \<Rightarrow> mat3 \<Rightarrow> mat3" where
  "np_dot (Mat3 a00 a01 a02 a10 a11 a12 a20 a21 a22)
          (Mat3 b00 b01 b02 b10 b11 b12 b20 b21 b22) =
     Mat3 (a00 * b00 + a01 * b10 + a02 * b20)
          (a00 * b01 + a01 * b11 + a02 * b21)
          (a00 * b02 + a01 * b12 + a02 * b22)
          (a10 * b00 + a11 * b10 + a12 * b20)
          (a10 * b01 + a11 * b11 + a12 * b21)
          (a10 * b02 + a11 * b12 + a12 * b22)
          (a20 * b00 + a21 * b10 + a22 * b20)
          (a20 * b01 + a21 * b11 + a22 * b21)
          (a20 * b02 + a21 * b12 + a22 * b22)"

definition identity3 :: mat3 where
  "identity3 = Mat3 1 0 0  0 1 0  0 0 1"

text \<open>The homogeneous translation by \<open>(dx, dy)\<close>, in the words of the specification.\<close>

definition translation :: "real \<Rightarrow> real \<Rightarrow> mat3" where
  "translation dx dy = Mat3 1 0 dx  0 1 dy  0 0 1"

section \<open>Centering\<close>

text \<open>\<^verbatim>\<open>transform_matrix_offset_center(matrix, x, y)\<close>, lines 71 to 77.\<close>

definition transform_matrix_offset_center :: "mat3 \<Rightarrow> nat \<Rightarrow> nat \<Rightarrow> mat3" where
  "transform_matrix_offset_center matrix x y =
     (let o_x = real x / 2 + 0.5;
          o_y = real y / 2 + 0.5;
          offset_matrix = Mat3 1 0 o_x  0 1 o_y  0 0 1;
          reset_matrix = Mat3 1 0 (- o_x)  0 1 (- o_y)  0 0 1;
          transform_matrix = np_dot (np_dot offset_matrix matrix) reset_matrix
      in transform_matrix)"

section \<open>Arrays and resampling\<close>

text \<open>
  A numpy array is its shape, its element type and its elements, read by multi-index. The
  elements outside the shape are never read. A cast to an integer type truncates towards
  zero; a cast to a float type keeps the value.
\<close>

datatype dtype = Float32 | Float64 | Int64

record ndarray =
  shape :: "nat list"
  dtype :: dtype
  item :: "nat list \<Rightarrow> real"

definition cast_to :: "dtype \<Rightarrow> real \<Rightarrow> real" where
  "cast_to d r = (case d of Int64 \<Rightarrow> (if 0 \<le> r then of_int \<lfloor>r\<rfloor> else of_int \<lceil>r\<rceil>) | _ \<Rightarrow> r)"

definition astype :: "ndarray \<Rightarrow> dtype \<Rightarrow> ndarray" where
  "astype x d = x\<lparr>dtype := d, item := (\<lambda>idx. cast_to d (item x idx))\<rparr>"

definition is_floating :: "dtype \<Rightarrow> bool" where
  "is_floating d = (d = Float32 \<or> d = Float64)"

text \<open>\<^verbatim>\<open>x.shape[i]\<close> for a literal index: a tuple index out of range raises.\<close>

definition shape_at :: "ndarray \<Rightarrow> nat \<Rightarrow> error + nat" where
  "shape_at x i = (if i < length (shape x) then Inr (shape x ! i) else Inl IndexError)"

fun index_of :: "nat \<Rightarrow> nat list \<Rightarrow> nat" where
  "index_of k [] = 0"
| "index_of k (a # as) = (if k = a then 0 else Suc (index_of k as))"

text \<open>\<^verbatim>\<open>a.transpose(axes)\<close>: axis \<open>j\<close> of the result is axis \<open>axes ! j\<close> of \<open>a\<close>.\<close>

definition np_transpose :: "ndarray \<Rightarrow> nat list \<Rightarrow> ndarray" where
  "np_transpose a axes =
     \<lparr>shape = map (\<lambda>k. shape a ! k) axes,
      dtype = dtype a,
      item = (\<lambda>idx. item a (map (\<lambda>k. idx ! index_of k axes) [0..<length axes]))\<rparr>"

text \<open>
  \<^verbatim>\<open>np.rollaxis(a, axis, start)\<close>, after numpy's own definition: both arguments are
  normalised by the number of dimensions, \<open>start\<close> is lowered by one when the axis lies
  before it, and the array is returned as it is when the axis is already in place.
\<close>

definition np_rollaxis :: "ndarray \<Rightarrow> int \<Rightarrow> int \<Rightarrow> error + ndarray" where
  "np_rollaxis a axis start =
     (let n = int (length (shape a)) in
      if axis < - n \<or> n \<le> axis then Inl AxisError
      else
        let axis1 = (if axis < 0 then axis + n else axis);
            start1 = (if start < 0 then start + n else start)
        in if \<not> (0 \<le> start1 \<and> start1 < n + 1) then Inl AxisError
           else
             let start2 = (if axis1 < start1 then start1 - 1 else start1)
             in if axis1 = start2 then Inr a
                else
                  let axes = remove1 (nat axis1) [0..<nat n];
                      axes' = take (nat start2) axes @ [nat axis1] @ drop (nat start2) axes
                  in Inr (np_transpose a axes'))"

text \<open>Iterating over an array yields its sub-arrays along the first axis.\<close>

definition iterate :: "ndarray \<Rightarrow> error + ndarray list" where
  "iterate x =
     (case shape x of
        [] \<Rightarrow> Inl TypeError
      | n # sh \<Rightarrow>
          Inr (map (\<lambda>i. \<lparr>shape = sh, dtype = dtype x, item = (\<lambda>idx. item x (i # idx))\<rparr>) [0..<n]))"

text \<open>\<^verbatim>\<open>np.stack(arrays, axis=0)\<close>: at least one array, all of one shape.\<close>

definition np_stack :: "ndarray list \<Rightarrow> error + ndarray" where
  "np_stack arrays =
     (case arrays of
        [] \<Rightarrow> Inl ValueError
      | a # as \<Rightarrow>
          if list_ex (\<lambda>b. shape b \<noteq> shape a) as then Inl ValueError
          else Inr \<lparr>shape = length arrays # shape a,
                    dtype = dtype a,
                    item = (\<lambda>idx. case idx of [] \<Rightarrow> 0 | k # rest \<Rightarrow> item (arrays ! k) rest)\<rparr>)"

text \<open>
  The fill modes of the module's docstrings: \<^verbatim>\<open>fill_mode : string in {'constant', 'nearest'}\<close>.
\<close>

datatype fill_mode = Constant | Nearest

text \<open>
  \<^verbatim>\<open>scipy.ndimage.affine_transform\<close> at \<^verbatim>\<open>order=0\<close> on a two-dimensional array: the
  element of the output at \<open>(i, j)\<close> is read from the input at the coordinate
  \<open>matrix \<cdot> (i, j) + offset\<close>, rounded to the nearest index. A coordinate outside
  \<open>[0, len - 1]\<close> gives \<open>cval\<close> in mode \<open>Constant\<close> and is clamped to the edge in mode
  \<open>Nearest\<close>. The output has the shape and the element type of the input.
\<close>

fun map_coordinate :: "fill_mode \<Rightarrow> nat \<Rightarrow> real \<Rightarrow> real option" where
  "map_coordinate Constant len c = (if c < 0 \<or> real len - 1 < c then None else Some c)"
| "map_coordinate Nearest len c =
     Some (if c < 0 then 0 else if real len - 1 < c then real len - 1 else c)"

definition nearest_index :: "real \<Rightarrow> nat" where
  "nearest_index c = nat \<lfloor>c + 1 / 2\<rfloor>"

type_synonym mat2 = "(real \<times> real) \<times> (real \<times> real)"
type_synonym vec2 = "real \<times> real"

definition ndi_affine_transform ::
  "ndarray \<Rightarrow> mat2 \<Rightarrow> vec2 \<Rightarrow> fill_mode \<Rightarrow> real \<Rightarrow> error + ndarray" where
  "ndi_affine_transform input matrix offset mode cval =
     (if length (shape input) \<noteq> 2 then Inl RuntimeError
      else
        Inr \<lparr>shape = shape input,
             dtype = dtype input,
             item = (\<lambda>idx.
               let i = real (idx ! 0);
                   j = real (idx ! 1);
                   u = fst (fst matrix) * i + snd (fst matrix) * j + fst offset;
                   v = fst (snd matrix) * i + snd (snd matrix) * j + snd offset
               in case (map_coordinate mode (shape input ! 0) u,
                        map_coordinate mode (shape input ! 1) v) of
                    (Some u', Some v') \<Rightarrow> item input [nearest_index u', nearest_index v']
                  | _ \<Rightarrow> cval)\<rparr>)"

text \<open>\<^verbatim>\<open>transform[:2, :2]\<close> and \<^verbatim>\<open>transform[:2, 2]\<close>.\<close>

fun linear_part :: "mat3 \<Rightarrow> mat2" where
  "linear_part (Mat3 a00 a01 a02 a10 a11 a12 a20 a21 a22) = ((a00, a01), (a10, a11))"

fun offset_part :: "mat3 \<Rightarrow> vec2" where
  "offset_part (Mat3 a00 a01 a02 a10 a11 a12 a20 a21 a22) = (a02, a12)"

text \<open>A list comprehension whose body can raise: the first exception ends it.\<close>

fun emap :: "('a \<Rightarrow> error + 'b) \<Rightarrow> 'a list \<Rightarrow> error + 'b list" where
  "emap f [] = Inr []"
| "emap f (x # xs) = ebind (f x) (\<lambda>y. ebind (emap f xs) (\<lambda>ys. Inr (y # ys)))"

text \<open>\<^verbatim>\<open>apply_transform(x, transform, fill_mode, fill_value, channel_axis)\<close>, lines 79 to 90.\<close>

definition apply_transform ::
  "ndarray \<Rightarrow> mat3 \<Rightarrow> fill_mode \<Rightarrow> real \<Rightarrow> int \<Rightarrow> error + ndarray" where
  "apply_transform x transform fill_mode fill_value channel_axis =
     ebind (np_rollaxis x channel_axis 0) (\<lambda>x1.
       let x2 = astype x1 Float32 in
       ebind (shape_at x2 1) (\<lambda>d1.
       ebind (shape_at x2 2) (\<lambda>d2.
         let transform' = transform_matrix_offset_center transform d1 d2;
             final_affine_matrix = linear_part transform';
             final_offset = offset_part transform'
         in ebind (iterate x2) (\<lambda>channels.
            ebind (emap (\<lambda>x_channel. ndi_affine_transform x_channel final_affine_matrix
                           final_offset fill_mode fill_value) channels) (\<lambda>channel_images.
            ebind (np_stack channel_images) (\<lambda>x3.
            np_rollaxis x3 0 (channel_axis + 1)))))))"

text \<open>The channel \<open>k\<close> of an array whose first axis is the channel axis, resampled.\<close>

definition resampled :: "ndarray \<Rightarrow> mat3 \<Rightarrow> fill_mode \<Rightarrow> real \<Rightarrow> nat \<Rightarrow> ndarray" where
  "resampled x2 t fm fv k =
     projr (ndi_affine_transform
       \<lparr>shape = tl (shape x2), dtype = dtype x2, item = (\<lambda>idx. item x2 (k # idx))\<rparr>
       (linear_part t) (offset_part t) fm fv)"

text \<open>The callers of \<open>apply_transform\<close> never pass \<open>channel_axis\<close>: it keeps its default.\<close>

definition default_channel_axis :: int where
  "default_channel_axis = - 1"

text \<open>Equality of two arrays on the elements inside their shape.\<close>

definition indices :: "nat list \<Rightarrow> nat list list" where
  "indices sh = List.product_lists (map (\<lambda>n. [0..<n]) sh)"

definition array_equal :: "ndarray \<Rightarrow> ndarray \<Rightarrow> bool" where
  "array_equal a b = (shape a = shape b \<and> list_all (\<lambda>idx. item a idx = item b idx) (indices (shape a)))"

section \<open>Matrix builders\<close>

text \<open>
  The attributes every affine class stores: the fill configuration of the image and of the
  target, and for a builder the flag \<open>lazy\<close>.
\<close>

record fill_cfg =
  fill_mode :: fill_mode
  fill_value :: real
  target_fill_mode :: fill_mode
  target_fill_value :: real

record builder_cfg = fill_cfg +
  lazy :: bool

record Rotate = builder_cfg +
  rotation_range :: pyval

record Translate = builder_cfg +
  height_range :: pyval
  width_range :: pyval

record Shear = builder_cfg +
  shear_range :: pyval

record Zoom = builder_cfg +
  zoom_range :: pyval

text \<open>What a \<open>transform\<close> method returns: a matrix, an image, or an image and its target.\<close>

datatype tresult = Matrix mat3 | Image ndarray | ImagePair ndarray ndarray

text \<open>
  The four \<open>transform\<close> methods end in the same lines: a lazy builder returns its matrix,
  any other applies it to the image with \<open>(fill_mode, fill_value)\<close> and, when a target is
  given, to the target with \<open>(target_fill_mode, target_fill_value)\<close>.
\<close>

definition return_or_apply ::
  "'a builder_cfg_scheme \<Rightarrow> mat3 \<Rightarrow> ndarray \<Rightarrow> ndarray option \<Rightarrow> error + tresult" where
  "return_or_apply self matrix X y =
     (if lazy self then Inr (Matrix matrix)
      else
        ebind (apply_transform X matrix (fill_mode self) (fill_value self) default_channel_axis)
          (\<lambda>x_transformed.
             case y of
               Some y0 \<Rightarrow>
                 ebind (apply_transform y0 matrix (target_fill_mode self)
                          (target_fill_value self) default_channel_axis)
                   (\<lambda>y_transformed. Inr (ImagePair x_transformed y_transformed))
             | None \<Rightarrow> Inr (Image x_transformed)))"

subsection \<open>Rotate\<close>

text \<open>
  \<open>Rotate.__init__\<close> and \<open>Rotate.transform\<close>, lines 245 to 295. \<open>Rotate_matrix\<close> is the
  first part of the method, which samples the angle and builds the matrix;
  \<open>Rotate_transform\<close> is the whole method. The other builders are split the same way.
\<close>

definition Rotate_init ::
  "pyval \<Rightarrow> fill_mode \<Rightarrow> real \<Rightarrow> fill_mode \<Rightarrow> real \<Rightarrow> bool \<Rightarrow> Rotate" where
  "Rotate_init rotation_range' fill_mode' fill_value' target_fill_mode' target_fill_value' lazy' =
     \<lparr>fill_mode = fill_mode', fill_value = fill_value',
      target_fill_mode = target_fill_mode', target_fill_value = target_fill_value',
      lazy = lazy', rotation_range = rotation_range'\<rparr>"

definition Rotate_matrix :: "Rotate \<Rightarrow> rng \<Rightarrow> error + (mat3 \<times> rng)" where
  "Rotate_matrix self g =
     ebind (num_of (rotation_range self)) (\<lambda>r.
       let (degree, g') = random_uniform (- r) r g;
           theta = pi / 180 * degree;
           rotation_matrix = Mat3 (cos theta) (- sin theta) 0
                                  (sin theta) (cos theta) 0
                                  0 0 1
       in Inr (rotation_matrix, g'))"

definition Rotate_transform ::
  "Rotate \<Rightarrow> ndarray \<Rightarrow> ndarray option \<Rightarrow> rng \<Rightarrow> error + (tresult \<times> rng)" where
  "Rotate_transform self X y g =
     ebind (Rotate_matrix self g) (\<lambda>(rotation_matrix, g').
       ebind (return_or_apply self rotation_matrix X y) (\<lambda>r. Inr (r, g')))"

subsection \<open>Translate\<close>

text \<open>
  \<open>Translate.__init__\<close> and \<open>Translate.transform\<close>, lines 300 to 370. A \<^verbatim>\<open>float\<close> range
  stands for both axes; any other range is subscripted.
\<close>

definition Translate_init ::
  "pyval \<Rightarrow> fill_mode \<Rightarrow> real \<Rightarrow> fill_mode \<Rightarrow> real \<Rightarrow> bool \<Rightarrow> error + Translate" where
  "Translate_init translation_range fill_mode' fill_value' target_fill_mode' target_fill_value' lazy' =
     (let translation_range' =
            (if is_float translation_range then PyTuple [translation_range, translation_range]
             else translation_range)
      in ebind (subscript translation_range' 0) (\<lambda>h.
         ebind (subscript translation_range' 1) (\<lambda>w.
           Inr \<lparr>fill_mode = fill_mode', fill_value = fill_value',
                target_fill_mode = target_fill_mode', target_fill_value = target_fill_value',
                lazy = lazy', height_range = h, width_range = w\<rparr>)))"

text \<open>
  One axis of \<open>Translate.transform\<close>: the shift is sampled, and the dimension of the image
  read, only when the range is greater than 0.
\<close>

definition axis_shift :: "pyval \<Rightarrow> ndarray \<Rightarrow> nat \<Rightarrow> rng \<Rightarrow> error + (real \<times> rng)" where
  "axis_shift fraction X axis g =
     ebind (num_of fraction) (\<lambda>f.
       if f > 0 then
         (let (u, g') = random_uniform (- f) f g
          in ebind (shape_at X axis) (\<lambda>d. Inr (u * real d, g')))
       else Inr (0, g))"

definition Translate_matrix :: "Translate \<Rightarrow> ndarray \<Rightarrow> rng \<Rightarrow> error + (mat3 \<times> rng)" where
  "Translate_matrix self X g =
     ebind (axis_shift (height_range self) X 0 g) (\<lambda>(tx, g1).
     ebind (axis_shift (width_range self) X 1 g1) (\<lambda>(ty, g2).
       let translation_matrix = Mat3 1 0 tx
                                     0 1 ty
                                     0 0 1
       in Inr (translation_matrix, g2)))"

definition Translate_transform ::
  "Translate \<Rightarrow> ndarray \<Rightarrow> ndarray option \<Rightarrow> rng \<Rightarrow> error + (tresult \<times> rng)" where
  "Translate_transform self X y g =
     ebind (Translate_matrix self X g) (\<lambda>(translation_matrix, g').
       ebind (return_or_apply self translation_matrix X y) (\<lambda>r. Inr (r, g')))"

subsection \<open>Shear\<close>

text \<open>\<open>Shear.__init__\<close> and \<open>Shear.transform\<close>, lines 375 to 423.\<close>

definition Shear_init ::
  "pyval \<Rightarrow> fill_mode \<Rightarrow> real \<Rightarrow> fill_mode \<Rightarrow> real \<Rightarrow> bool \<Rightarrow> Shear" where
  "Shear_init shear_range' fill_mode' fill_value' target_fill_mode' target_fill_value' lazy' =
     \<lparr>fill_mode = fill_mode', fill_value = fill_value',
      target_fill_mode = target_fill_mode', target_fill_value = target_fill_value',
      lazy = lazy', shear_range = shear_range'\<rparr>"

definition Shear_matrix :: "Shear \<Rightarrow> rng \<Rightarrow> error + (mat3 \<times> rng)" where
  "Shear_matrix self g =
     ebind (num_of (shear_range self)) (\<lambda>s.
       let (shear, g') = random_uniform (- s) s g;
           shear_matrix = Mat3 1 (- sin shear) 0
                               0 (cos shear) 0
                               0 0 1
       in Inr (shear_matrix, g'))"

definition Shear_transform ::
  "Shear \<Rightarrow> ndarray \<Rightarrow> ndarray option \<Rightarrow> rng \<Rightarrow> error + (tresult \<times> rng)" where
  "Shear_transform self X y g =
     ebind (Shear_matrix self g) (\<lambda>(shear_matrix, g').
       ebind (return_or_apply self shear_matrix X y) (\<lambda>r. Inr (r, g')))"

subsection \<open>Zoom\<close>

text \<open>
  \<open>Zoom.__init__\<close> and \<open>Zoom.transform\<close>, lines 429 to 485. The constructor tests the
  type of the range and nothing else.
\<close>

definition Zoom_init ::
  "pyval \<Rightarrow> fill_mode \<Rightarrow> real \<Rightarrow> fill_mode \<Rightarrow> real \<Rightarrow> bool \<Rightarrow> error + Zoom" where
  "Zoom_init zoom_range' fill_mode' fill_value' target_fill_mode' target_fill_value' lazy' =
     (if \<not> is_list_or_tuple zoom_range' then Inl ValueError
      else Inr \<lparr>fill_mode = fill_mode', fill_value = fill_value',
                target_fill_mode = target_fill_mode', target_fill_value = target_fill_value',
                lazy = lazy', zoom_range = zoom_range'\<rparr>)"

text \<open>\<^verbatim>\<open>random.uniform(self.zoom_range[0], self.zoom_range[1])\<close>.\<close>

definition zoom_draw :: "pyval \<Rightarrow> rng \<Rightarrow> error + (real \<times> rng)" where
  "zoom_draw bounds g =
     ebind (subscript bounds 0) (\<lambda>lo.
     ebind (subscript bounds 1) (\<lambda>hi.
     ebind (num_of lo) (\<lambda>a.
     ebind (num_of hi) (\<lambda>b. Inr (random_uniform a b g)))))"

definition Zoom_matrix :: "Zoom \<Rightarrow> rng \<Rightarrow> error + (mat3 \<times> rng)" where
  "Zoom_matrix self g =
     ebind (zoom_draw (zoom_range self) g) (\<lambda>(zx, g1).
     ebind (zoom_draw (zoom_range self) g1) (\<lambda>(zy, g2).
       let zoom_matrix = Mat3 zx 0 0
                              0 zy 0
                              0 0 1
       in Inr (zoom_matrix, g2)))"

definition Zoom_transform ::
  "Zoom \<Rightarrow> ndarray \<Rightarrow> ndarray option \<Rightarrow> rng \<Rightarrow> error + (tresult \<times> rng)" where
  "Zoom_transform self X y g =
     ebind (Zoom_matrix self g) (\<lambda>(zoom_matrix, g').
       ebind (return_or_apply self zoom_matrix X y) (\<lambda>r. Inr (r, g')))"

text \<open>
  The requirement of the specification on a zoom range: a 2-element ordered pair
  \<open>(low, high)\<close> of numbers with \<open>low < high\<close> and both greater than 0.
\<close>

fun spec_zoom_pair :: "pyval \<Rightarrow> bool" where
  "spec_zoom_pair (PyList [lo, hi]) =
     (case (num_of lo, num_of hi) of (Inr a, Inr b) \<Rightarrow> a < b \<and> 0 < a \<and> 0 < b | _ \<Rightarrow> False)"
| "spec_zoom_pair (PyTuple [lo, hi]) =
     (case (num_of lo, num_of hi) of (Inr a, Inr b) \<Rightarrow> a < b \<and> 0 < a \<and> 0 < b | _ \<Rightarrow> False)"
| "spec_zoom_pair _ = False"

section \<open>Matrix composers\<close>

text \<open>
  The objects a composer holds are instances of the four builder classes (the docstring of
  \<open>AffineCompose\<close> lists them as the supported transforms).
\<close>

datatype builder =
    Rotate_obj Rotate
  | Translate_obj Translate
  | Shear_obj Shear
  | Zoom_obj Zoom

text \<open>The method call \<^verbatim>\<open>t.transform(X, y)\<close> on a builder.\<close>

fun builder_transform ::
  "builder \<Rightarrow> ndarray \<Rightarrow> ndarray option \<Rightarrow> rng \<Rightarrow> error + (tresult \<times> rng)" where
  "builder_transform (Rotate_obj t) X y g = Rotate_transform t X y g"
| "builder_transform (Translate_obj t) X y g = Translate_transform t X y g"
| "builder_transform (Shear_obj t) X y g = Shear_transform t X y g"
| "builder_transform (Zoom_obj t) X y g = Zoom_transform t X y g"

text \<open>
  The call \<^verbatim>\<open>t(X)\<close> of the object itself. None of the four classes defines
  \<^verbatim>\<open>__call__\<close> (each defines \<^verbatim>\<open>__init__\<close> and \<^verbatim>\<open>transform\<close> only, on the base
  \<^verbatim>\<open>object\<close>), so the interpreter raises \<^verbatim>\<open>TypeError\<close>: the object is not callable.
\<close>

fun call_object :: "builder \<Rightarrow> ndarray \<Rightarrow> rng \<Rightarrow> error + (mat3 \<times> rng)" where
  "call_object (Rotate_obj t) X g = Inl TypeError"
| "call_object (Translate_obj t) X g = Inl TypeError"
| "call_object (Shear_obj t) X g = Inl TypeError"
| "call_object (Zoom_obj t) X g = Inl TypeError"

text \<open>\<^verbatim>\<open>t.lazy = True\<close>.\<close>

fun set_lazy :: "builder \<Rightarrow> builder" where
  "set_lazy (Rotate_obj t) = Rotate_obj (t\<lparr>lazy := True\<rparr>)"
| "set_lazy (Translate_obj t) = Translate_obj (t\<lparr>lazy := True\<rparr>)"
| "set_lazy (Shear_obj t) = Shear_obj (t\<lparr>lazy := True\<rparr>)"
| "set_lazy (Zoom_obj t) = Zoom_obj (t\<lparr>lazy := True\<rparr>)"

text \<open>The flag \<open>lazy\<close> of a builder.\<close>

fun builder_lazy :: "builder \<Rightarrow> bool" where
  "builder_lazy (Rotate_obj t) = lazy t"
| "builder_lazy (Translate_obj t) = lazy t"
| "builder_lazy (Shear_obj t) = lazy t"
| "builder_lazy (Zoom_obj t) = lazy t"

text \<open>\<open>Affine\<close> and \<open>AffineCompose\<close> store the same attributes.\<close>

record composer = fill_cfg +
  transforms :: "builder list"

text \<open>
  The first lines of both \<open>transform\<close> methods (170 to 172 and 226 to 228):
  \<^verbatim>\<open>tform_matrix = self.transforms[0](X)\<close>, then for every further sub-transform
  \<^verbatim>\<open>tform_matrix = np.dot(tform_matrix, tform(X))\<close>. The way an element of the list is
  called is the parameter \<open>call\<close>; the methods use \<open>call_object\<close>.
\<close>

fun accumulate ::
  "(builder \<Rightarrow> ndarray \<Rightarrow> rng \<Rightarrow> error + (mat3 \<times> rng)) \<Rightarrow> mat3 \<Rightarrow> builder list \<Rightarrow>
   ndarray \<Rightarrow> rng \<Rightarrow> error + (mat3 \<times> rng)" where
  "accumulate call tform_matrix [] X g = Inr (tform_matrix, g)"
| "accumulate call tform_matrix (tform # rest) X g =
     ebind (call tform X g) (\<lambda>(m, g'). accumulate call (np_dot tform_matrix m) rest X g')"

definition collect_matrices ::
  "(builder \<Rightarrow> ndarray \<Rightarrow> rng \<Rightarrow> error + (mat3 \<times> rng)) \<Rightarrow> builder list \<Rightarrow>
   ndarray \<Rightarrow> rng \<Rightarrow> error + (mat3 \<times> rng)" where
  "collect_matrices call ts X g =
     (case ts of
        [] \<Rightarrow> Inl IndexError
      | first # rest \<Rightarrow> ebind (call first X g) (\<lambda>(m0, g'). accumulate call m0 rest X g'))"

text \<open>The rest of both methods: the one matrix is applied to the image and to the target.\<close>

definition apply_to_both ::
  "'a fill_cfg_scheme \<Rightarrow> mat3 \<Rightarrow> ndarray \<Rightarrow> ndarray option \<Rightarrow> error + tresult" where
  "apply_to_both self tform_matrix X y =
     ebind (apply_transform X tform_matrix (fill_mode self) (fill_value self) default_channel_axis)
       (\<lambda>X'.
          case y of
            Some y0 \<Rightarrow>
              ebind (apply_transform y0 tform_matrix (target_fill_mode self)
                       (target_fill_value self) default_channel_axis)
                (\<lambda>y'. Inr (ImagePair X' y'))
          | None \<Rightarrow> Inr (Image X'))"

subsection \<open>Affine\<close>

text \<open>
  \<open>Affine.__init__\<close> and \<open>Affine.transform\<close>, lines 95 to 184. A sub-transform is created,
  lazy and with the default fill configuration of its class, for every range that is true
  as a condition.
\<close>

definition Affine_init ::
  "pyval \<Rightarrow> pyval \<Rightarrow> pyval \<Rightarrow> pyval \<Rightarrow> fill_mode \<Rightarrow> real \<Rightarrow> fill_mode \<Rightarrow> real \<Rightarrow>
   error + composer" where
  "Affine_init rotation_range' translation_range shear_range' zoom_range'
               fill_mode' fill_value' target_fill_mode' target_fill_value' =
     (let ts0 = [];
          ts1 = (if truthy rotation_range'
                 then ts0 @ [Rotate_obj (Rotate_init rotation_range' Constant 0 Nearest 0 True)]
                 else ts0)
      in ebind (if truthy translation_range
                then ebind (Translate_init translation_range Constant 0 Nearest 0 True)
                       (\<lambda>t. Inr (ts1 @ [Translate_obj t]))
                else Inr ts1) (\<lambda>ts2.
         let ts3 = (if truthy shear_range'
                    then ts2 @ [Shear_obj (Shear_init shear_range' Constant 0 Nearest 0 True)]
                    else ts2)
         in ebind (if truthy zoom_range'
                   then ebind (Zoom_init zoom_range' Constant 0 Nearest 0 True)
                          (\<lambda>z. Inr (ts3 @ [Zoom_obj z]))
                   else Inr ts3) (\<lambda>ts4.
            Inr \<lparr>fill_mode = fill_mode', fill_value = fill_value',
                 target_fill_mode = target_fill_mode', target_fill_value = target_fill_value',
                 transforms = ts4\<rparr>)))"

definition Affine_transform ::
  "composer \<Rightarrow> ndarray \<Rightarrow> ndarray option \<Rightarrow> rng \<Rightarrow> error + (tresult \<times> rng)" where
  "Affine_transform self X y g =
     ebind (collect_matrices call_object (transforms self) X g) (\<lambda>(tform_matrix, g').
       ebind (apply_to_both self tform_matrix X y) (\<lambda>r. Inr (r, g')))"

subsection \<open>AffineCompose\<close>

text \<open>\<open>AffineCompose.__init__\<close> and \<open>AffineCompose.transform\<close>, lines 189 to 240.\<close>

definition AffineCompose_init ::
  "builder list \<Rightarrow> fill_mode \<Rightarrow> real \<Rightarrow> fill_mode \<Rightarrow> real \<Rightarrow> composer" where
  "AffineCompose_init transforms' fill_mode' fill_value' target_fill_mode' target_fill_value' =
     \<lparr>fill_mode = fill_mode', fill_value = fill_value',
      target_fill_mode = target_fill_mode', target_fill_value = target_fill_value',
      transforms = map set_lazy transforms'\<rparr>"

definition AffineCompose_transform ::
  "composer \<Rightarrow> ndarray \<Rightarrow> ndarray option \<Rightarrow> rng \<Rightarrow> error + (tresult \<times> rng)" where
  "AffineCompose_transform self X y g =
     ebind (collect_matrices call_object (transforms self) X g) (\<lambda>(tform_matrix, g').
       ebind (apply_to_both self tform_matrix X y) (\<lambda>r. Inr (r, g')))"

text \<open>
  The composition algorithm in the words of the specification: the builder's \<open>transform\<close>
  is invoked to get its matrix, and the matrices are multiplied in declared order,
  \<open>M\<^sub>0 \<cdot> M\<^sub>1 \<cdot> \<dots> \<cdot> M\<^sub>n\<close>.
\<close>

fun spec_invoke :: "builder \<Rightarrow> ndarray \<Rightarrow> rng \<Rightarrow> error + (mat3 \<times> rng)" where
  "spec_invoke (Rotate_obj t) X g = Rotate_matrix t g"
| "spec_invoke (Translate_obj t) X g = Translate_matrix t X g"
| "spec_invoke (Shear_obj t) X g = Shear_matrix t g"
| "spec_invoke (Zoom_obj t) X g = Zoom_matrix t g"

fun invoke_all ::
  "(builder \<Rightarrow> ndarray \<Rightarrow> rng \<Rightarrow> error + (mat3 \<times> rng)) \<Rightarrow> builder list \<Rightarrow>
   ndarray \<Rightarrow> rng \<Rightarrow> error + (mat3 list \<times> rng)" where
  "invoke_all call [] X g = Inr ([], g)"
| "invoke_all call (t # ts) X g =
     ebind (call t X g) (\<lambda>(m, g').
     ebind (invoke_all call ts X g') (\<lambda>(ms, g''). Inr (m # ms, g'')))"

fun ordered_product :: "mat3 \<Rightarrow> mat3 list \<Rightarrow> mat3" where
  "ordered_product m0 [] = m0"
| "ordered_product m0 (m # ms) = np_dot m0 (ordered_product m ms)"

section \<open>Simple transforms and the pipeline\<close>

text \<open>
  \<^verbatim>\<open>np.array(X, dtype='int').ravel()\<close>: the elements in row-major order, truncated
  towards zero.
\<close>

definition trunc_int :: "real \<Rightarrow> int" where
  "trunc_int r = (if 0 \<le> r then \<lfloor>r\<rfloor> else \<lceil>r\<rceil>)"

definition ravel_int :: "ndarray \<Rightarrow> int list" where
  "ravel_int X = map (\<lambda>idx. trunc_int (item X idx)) (indices (shape X))"

text \<open>\<^verbatim>\<open>np.max\<close> of a flat array; an empty array has no maximum.\<close>

definition np_max :: "int list \<Rightarrow> error + int" where
  "np_max xs = (case xs of [] \<Rightarrow> Inl ValueError | x # rest \<Rightarrow> Inr (fold max rest x))"

text \<open>
  \<^verbatim>\<open>categorical = np.zeros((n, k)); categorical[np.arange(n), X] = 1\<close>: a negative
  dimension raises, a class index outside \<open>[- k, k)\<close> raises, a negative index counts from
  the end of the row.
\<close>

definition one_hot :: "int list \<Rightarrow> int \<Rightarrow> error + ndarray" where
  "one_hot xs k =
     (if k < 0 then Inl ValueError
      else if list_ex (\<lambda>x. x < - k \<or> k \<le> x) xs then Inl IndexError
      else Inr \<lparr>shape = [length xs, nat k], dtype = Float64,
                item = (\<lambda>idx. let v = xs ! (idx ! 0);
                                 col = (if v < 0 then v + k else v)
                             in if int (idx ! 1) = col then 1 else 0)\<rparr>)"

text \<open>
  \<open>ToCategorical.transform\<close>, lines 52 to 59. The method assigns \<^verbatim>\<open>self.num_classes\<close>;
  the model returns the attribute after the call beside the result, also when a later
  line raises.
\<close>

definition ToCategorical_transform ::
  "int option \<Rightarrow> ndarray \<Rightarrow> (error + ndarray) \<times> int option" where
  "ToCategorical_transform num_classes X =
     (let xs = ravel_int X
      in case (if num_classes = None \<or> num_classes = Some 0
               then map_sum id (\<lambda>m. m + 1) (np_max xs)
               else Inr (the num_classes)) of
           Inl e \<Rightarrow> (Inl e, num_classes)
         | Inr k \<Rightarrow> (one_hot xs k, Some k))"

text \<open>\<^verbatim>\<open>np.expand_dims(X, axis)\<close>, of \<open>ExpandDims.transform\<close>.\<close>

definition np_expand_dims :: "ndarray \<Rightarrow> int \<Rightarrow> error + ndarray" where
  "np_expand_dims X axis =
     (let n = int (length (shape X)) in
      if axis < - (n + 1) \<or> n < axis then Inl AxisError
      else
        let a = nat (if axis < 0 then axis + n + 1 else axis)
        in Inr \<lparr>shape = take a (shape X) @ [1] @ drop a (shape X),
                dtype = dtype X,
                item = (\<lambda>idx. item X (take a idx @ drop (Suc a) idx))\<rparr>)"

text \<open>A matrix of the builders is itself a numpy array, of shape \<open>(3, 3)\<close>.\<close>

definition mat3_array :: "mat3 \<Rightarrow> ndarray" where
  "mat3_array m =
     \<lparr>shape = [3, 3], dtype = Float64,
      item = (\<lambda>idx. [[m00 m, m01 m, m02 m], [m10 m, m11 m, m12 m], [m20 m, m21 m, m22 m]]
                       ! (idx ! 0) ! (idx ! 1))\<rparr>"

text \<open>
  The transform objects of the module, each with the attributes its constructor stores.
  The function of a \<open>LambdaTransform\<close> is a pure function on arrays. The sub-transforms
  of a \<open>Compose\<close> are distinct objects.
\<close>

datatype tobj =
    Compose_obj "tobj list"
  | LambdaTransform_obj "ndarray \<Rightarrow> error + ndarray"
  | ExpandDims_obj int
  | ToCategorical_obj "int option"
  | TypeCast_obj dtype
  | Affine_obj composer
  | AffineCompose_obj composer
  | Builder_obj builder

text \<open>
  The value of \<^verbatim>\<open>tx.transform(X)\<close> as the next input of a pipeline. No target is
  passed, so a pair is never returned.
\<close>

definition returned_array :: "error + (tresult \<times> rng) \<Rightarrow> error + (ndarray \<times> rng)" where
  "returned_array r =
     ebind r (\<lambda>(res, g').
       case res of
         Matrix m \<Rightarrow> Inr (mat3_array m, g')
       | Image a \<Rightarrow> Inr (a, g')
       | ImagePair a b \<Rightarrow> Inl TypeError)"

text \<open>
  The method call \<^verbatim>\<open>tx.transform(X)\<close> on any transform object, returning the result and
  the object after the call; \<open>transform_seq\<close> is the loop of \<open>Compose.transform\<close>,
  lines 23 to 26, which threads \<open>X\<close> through the sub-transforms and stops at the first
  exception.
\<close>

fun transform_of :: "tobj \<Rightarrow> ndarray \<Rightarrow> rng \<Rightarrow> (error + (ndarray \<times> rng)) \<times> tobj"
  and transform_seq :: "tobj list \<Rightarrow> ndarray \<Rightarrow> rng \<Rightarrow> (error + (ndarray \<times> rng)) \<times> tobj list"
where
  "transform_of (Compose_obj ts) X g =
     (case transform_seq ts X g of (r, ts') \<Rightarrow> (r, Compose_obj ts'))"
| "transform_of (LambdaTransform_obj fn) X g =
     (ebind (fn X) (\<lambda>a. Inr (a, g)), LambdaTransform_obj fn)"
| "transform_of (ExpandDims_obj axis) X g =
     (ebind (np_expand_dims X axis) (\<lambda>a. Inr (a, g)), ExpandDims_obj axis)"
| "transform_of (ToCategorical_obj num_classes) X g =
     (case ToCategorical_transform num_classes X of
        (r, num_classes') \<Rightarrow> (ebind r (\<lambda>a. Inr (a, g)), ToCategorical_obj num_classes'))"
| "transform_of (TypeCast_obj d) X g = (Inr (astype X d, g), TypeCast_obj d)"
| "transform_of (Affine_obj a) X g = (returned_array (Affine_transform a X None g), Affine_obj a)"
| "transform_of (AffineCompose_obj a) X g =
     (returned_array (AffineCompose_transform a X None g), AffineCompose_obj a)"
| "transform_of (Builder_obj b) X g = (returned_array (builder_transform b X None g), Builder_obj b)"
| "transform_seq [] X g = (Inr (X, g), [])"
| "transform_seq (tx # rest) X g =
     (case transform_of tx X g of
        (Inl e, tx') \<Rightarrow> (Inl e, tx' # rest)
      | (Inr (X', g'), tx') \<Rightarrow>
          (case transform_seq rest X' g' of (r, rest') \<Rightarrow> (r, tx' # rest')))"

text \<open>
  A \<open>ToCategorical\<close> whose \<open>num_classes\<close> is unset (\<^verbatim>\<open>not self.num_classes\<close>: \<^verbatim>\<open>None\<close>
  or 0), or a \<open>Compose\<close> that holds one.
\<close>

fun infers_num_classes :: "tobj \<Rightarrow> bool" where
  "infers_num_classes (ToCategorical_obj num_classes) = (num_classes = None \<or> num_classes = Some 0)"
| "infers_num_classes (Compose_obj ts) = list_ex infers_num_classes ts"
| "infers_num_classes _ = False"

section \<open>Inputs for evaluation\<close>

text \<open>
  A channels-last image of height 1, width 2 and 2 channels, with distinct elements, a
  target of the same spatial size with one channel, and a random source whose every draw
  is three quarters.
\<close>

definition example_image :: ndarray where
  "example_image =
     \<lparr>shape = [1, 2, 2], dtype = Int64,
      item = (\<lambda>idx. real (1 + 4 * (idx ! 0) + 2 * (idx ! 1) + (idx ! 2)))\<rparr>"

definition example_target :: ndarray where
  "example_target =
     \<lparr>shape = [1, 2, 1], dtype = Int64,
      item = (\<lambda>idx. real (idx ! 1))\<rparr>"

definition example_rng :: rng where
  "example_rng = \<lparr>source = (\<lambda>n. 3 / 4), calls = 0\<rparr>"

text \<open>Class labels for \<open>ToCategorical\<close>: \<open>[0, 2, 1]\<close>, and a later batch \<open>[0, 3]\<close>.\<close>

definition example_labels :: ndarray where
  "example_labels = \<lparr>shape = [3], dtype = Int64, item = (\<lambda>idx. [0, 2, 1] ! (idx ! 0))\<rparr>"

definition later_labels :: ndarray where
  "later_labels = \<lparr>shape = [2], dtype = Int64, item = (\<lambda>idx. [0, 3] ! (idx ! 0))\<rparr>"

section \<open>Properties\<close>

lemma np_dot_identity3_left: "np_dot identity3 m = m"
  by (cases m) (simp add: identity3_def)

lemma np_dot_identity3_right: "np_dot m identity3 = m"
  by (cases m) (simp add: identity3_def)

lemma np_dot_assoc: "np_dot (np_dot a b) c = np_dot a (np_dot b c)"
  by (cases a; cases b; cases c) (simp add: algebra_simps)

lemma translation_inverse: "np_dot (translation dx dy) (translation (- dx) (- dy)) = identity3"
  by (simp add: translation_def identity3_def)

lemma ebind_simps [simp]:
  "ebind (Inl e) f = Inl e"
  "ebind (Inr x) f = f x"
  by (simp_all add: ebind_def)

text \<open>
  Claim C6. For every 3-by-3 matrix \<open>M\<close> and all spatial dimensions \<open>height\<close> and \<open>width\<close>,
  \<open>transform_matrix_offset_center M height width\<close> is the product \<open>T \<cdot> M \<cdot> T\<^sup>-\<^sup>1\<close>, where
  \<open>T\<close> is the homogeneous translation by \<open>(o_x, o_y)\<close>, \<open>o_x = height / 2 + 0.5\<close>,
  \<open>o_y = width / 2 + 0.5\<close>, and \<open>T\<^sup>-\<^sup>1\<close>, the translation by \<open>(- o_x, - o_y)\<close>, is the inverse
  of \<open>T\<close> on both sides.
\<close>

theorem transform_matrix_offset_center_conjugation:
  "transform_matrix_offset_center M height width =
     np_dot (np_dot (translation (real height / 2 + 0.5) (real width / 2 + 0.5)) M)
            (translation (- (real height / 2 + 0.5)) (- (real width / 2 + 0.5)))
   \<and> np_dot (translation (real height / 2 + 0.5) (real width / 2 + 0.5))
            (translation (- (real height / 2 + 0.5)) (- (real width / 2 + 0.5))) = identity3
   \<and> np_dot (translation (- (real height / 2 + 0.5)) (- (real width / 2 + 0.5)))
            (translation (real height / 2 + 0.5) (real width / 2 + 0.5)) = identity3"
  by (simp add: transform_matrix_offset_center_def translation_def identity3_def Let_def)

subsection \<open>Resampling\<close>

text \<open>The examples of numpy's documentation of \<^verbatim>\<open>rollaxis\<close>.\<close>

lemma np_rollaxis_documented_shapes:
  "shape a = [3, 4, 5, 6] \<Longrightarrow> map_sum id shape (np_rollaxis a 3 1) = Inr [3, 6, 4, 5]"
  "shape a = [3, 4, 5, 6] \<Longrightarrow> map_sum id shape (np_rollaxis a 2 0) = Inr [5, 3, 4, 6]"
  "shape a = [3, 4, 5, 6] \<Longrightarrow> map_sum id shape (np_rollaxis a 1 4) = Inr [3, 5, 6, 4]"
  by (simp_all add: np_rollaxis_def np_transpose_def Let_def upt_rec)

text \<open>The four calls of \<open>np_rollaxis\<close> that \<open>apply_transform\<close> makes on an image of three axes.\<close>

lemma np_rollaxis_last_to_front:
  "shape x = [h, w, c] \<Longrightarrow> np_rollaxis x (- 1) 0 = Inr (np_transpose x [2, 0, 1])"
  by (simp add: np_rollaxis_def Let_def upt_rec)

lemma np_rollaxis_front_stays:
  "shape x \<noteq> [] \<Longrightarrow> np_rollaxis x 0 0 = Inr x"
  by (simp add: np_rollaxis_def Let_def)

lemma np_rollaxis_axis2_to_front:
  "shape x = [h, w, c] \<Longrightarrow> np_rollaxis x 2 0 = Inr (np_transpose x [2, 0, 1])"
  by (simp add: np_rollaxis_def Let_def upt_rec)

lemma np_rollaxis_front_to_last:
  "shape x = [c, h, w] \<Longrightarrow> np_rollaxis x 0 3 = Inr (np_transpose x [1, 2, 0])"
  by (simp add: np_rollaxis_def Let_def upt_rec numeral_2_eq_2)

text \<open>The channels of a three-axis array are resampled one by one and stacked again.\<close>

lemma emap_map_map_Inr:
  "(\<And>i. i \<in> set xs \<Longrightarrow> f (g i) = Inr (h i)) \<Longrightarrow> emap f (map g xs) = Inr (map h xs)"
  by (induction xs) simp_all

lemma ndi_affine_transform_2d:
  "length (shape input) = 2 \<Longrightarrow>
     ndi_affine_transform input m b fm fv = Inr (projr (ndi_affine_transform input m b fm fv))"
  by (simp add: ndi_affine_transform_def)

lemma iterate_3d:
  "shape x2 = [c, h, w] \<Longrightarrow>
     iterate x2 =
       Inr (map (\<lambda>i. \<lparr>shape = [h, w], dtype = dtype x2, item = (\<lambda>idx. item x2 (i # idx))\<rparr>)
              [0..<c])"
  by (simp add: iterate_def)

lemma emap_resampled:
  assumes "shape x2 = [c, h, w]"
  shows "emap (\<lambda>x_channel. ndi_affine_transform x_channel (linear_part t) (offset_part t) fm fv)
           (map (\<lambda>i. \<lparr>shape = [h, w], dtype = dtype x2, item = (\<lambda>idx. item x2 (i # idx))\<rparr>)
              [0..<c])
         = Inr (map (resampled x2 t fm fv) [0..<c])"
proof -
  have each: "\<And>i. ndi_affine_transform
        \<lparr>shape = [h, w], dtype = dtype x2, item = (\<lambda>idx. item x2 (i # idx))\<rparr>
        (linear_part t) (offset_part t) fm fv = Inr (resampled x2 t fm fv i)"
    using assms unfolding resampled_def
    by (simp add: ndi_affine_transform_2d [symmetric])
  show ?thesis
    by (rule emap_map_map_Inr) (rule each)
qed

lemma resampled_shape:
  "shape x2 = [c, h, w] \<Longrightarrow> shape (resampled x2 t fm fv k) = [h, w]"
  by (simp add: resampled_def ndi_affine_transform_def)

lemma resampled_dtype:
  "shape x2 = [c, h, w] \<Longrightarrow> dtype (resampled x2 t fm fv k) = dtype x2"
  by (simp add: resampled_def ndi_affine_transform_def)

lemma np_stack_same_shape:
  assumes "cs \<noteq> []" and "\<And>b. b \<in> set cs \<Longrightarrow> shape b = sh"
  shows "np_stack cs =
      Inr \<lparr>shape = length cs # sh, dtype = dtype (hd cs),
           item = (\<lambda>idx. case idx of [] \<Rightarrow> 0 | k # rest \<Rightarrow> item (cs ! k) rest)\<rparr>"
proof -
  from assms(1) obtain a as where cs: "cs = a # as" by (cases cs) simp_all
  have "\<not> list_ex (\<lambda>b. shape b \<noteq> shape a) as"
    using assms(2) cs by (simp add: list_ex_iff)
  moreover have "shape a = sh" using assms(2) cs by simp
  ultimately show ?thesis unfolding cs by (simp add: np_stack_def)
qed

lemma np_stack_resampled:
  assumes "shape x2 = [c, h, w]" and "0 < c"
  shows "\<exists>r. np_stack (map (resampled x2 t fm fv) [0..<c]) = Inr r
           \<and> shape r = [c, h, w] \<and> dtype r = dtype x2
           \<and> (\<forall>k idx. k < c \<longrightarrow> item r (k # idx) = item (resampled x2 t fm fv k) idx)"
proof -
  let ?cs = "map (resampled x2 t fm fv) [0..<c]"
  have ne: "?cs \<noteq> []" using \<open>0 < c\<close> by simp
  have sh: "\<And>b. b \<in> set ?cs \<Longrightarrow> shape b = [h, w]"
    using assms(1) by (auto simp add: resampled_shape)
  have hd: "hd ?cs = resampled x2 t fm fv 0"
    using \<open>0 < c\<close> by (simp add: hd_map upt_conv_Cons)
  have st: "np_stack ?cs =
      Inr \<lparr>shape = length ?cs # [h, w], dtype = dtype (hd ?cs),
           item = (\<lambda>idx. case idx of [] \<Rightarrow> 0 | k # rest \<Rightarrow> item (?cs ! k) rest)\<rparr>"
    using ne sh by (rule np_stack_same_shape)
  show ?thesis
    unfolding st hd using assms(1) by (simp add: resampled_dtype)
qed

text \<open>
  The shape of the result. With the default \<open>channel_axis\<close> an image of shape
  \<open>(h, w, c)\<close> comes back with the shape \<open>(c, h, w)\<close>; with \<open>channel_axis = 2\<close> it comes
  back with its own shape; an image with no channel raises in \<^verbatim>\<open>np.stack\<close>.
\<close>

lemma apply_transform_default_axis:
  assumes sh: "shape x = [h, w, c]" and c: "0 < c"
  shows "\<exists>r. apply_transform x M fm fv default_channel_axis = Inr r
           \<and> shape r = [c, h, w] \<and> dtype r = Float32"
proof -
  define x1 where "x1 = np_transpose x [2, 0, 1]"
  define x2 where "x2 = astype x1 Float32"
  define t where "t = transform_matrix_offset_center M h w"
  have roll: "np_rollaxis x (- 1) 0 = Inr x1"
    unfolding x1_def using sh by (rule np_rollaxis_last_to_front)
  have sh2: "shape x2 = [c, h, w]"
    using sh by (simp add: x2_def x1_def astype_def np_transpose_def)
  have dt2: "dtype x2 = Float32" by (simp add: x2_def astype_def)
  from np_stack_resampled [OF sh2 c, of t fm fv] dt2
  obtain r where r: "np_stack (map (resampled x2 t fm fv) [0..<c]) = Inr r"
    and shr: "shape r = [c, h, w]" and dtr: "dtype r = Float32"
    by auto
  have d1: "shape_at x2 (Suc 0) = Inr h" and d2: "shape_at x2 2 = Inr w"
    using sh2 by (simp_all add: shape_at_def)
  have stays: "np_rollaxis r 0 0 = Inr r"
    using shr by (simp add: np_rollaxis_front_stays)
  have "apply_transform x M fm fv default_channel_axis = Inr r"
    unfolding apply_transform_def default_channel_axis_def
    by (simp add: roll Let_def x2_def [symmetric] d1 d2 t_def [symmetric] iterate_3d [OF sh2]
        emap_resampled [OF sh2] r stays)
  with shr dtr show ?thesis by simp
qed

lemma apply_transform_explicit_axis:
  assumes sh: "shape x = [h, w, c]" and c: "0 < c"
  shows "\<exists>r. apply_transform x M fm fv 2 = Inr r
           \<and> shape r = [h, w, c] \<and> dtype r = Float32"
proof -
  define x1 where "x1 = np_transpose x [2, 0, 1]"
  define x2 where "x2 = astype x1 Float32"
  define t where "t = transform_matrix_offset_center M h w"
  have roll: "np_rollaxis x 2 0 = Inr x1"
    unfolding x1_def using sh by (rule np_rollaxis_axis2_to_front)
  have sh2: "shape x2 = [c, h, w]"
    using sh by (simp add: x2_def x1_def astype_def np_transpose_def)
  have dt2: "dtype x2 = Float32" by (simp add: x2_def astype_def)
  from np_stack_resampled [OF sh2 c, of t fm fv] dt2
  obtain r where r: "np_stack (map (resampled x2 t fm fv) [0..<c]) = Inr r"
    and shr: "shape r = [c, h, w]" and dtr: "dtype r = Float32"
    by auto
  define r' where "r' = np_transpose r [1, 2, 0]"
  have d1: "shape_at x2 (Suc 0) = Inr h" and d2: "shape_at x2 2 = Inr w"
    using sh2 by (simp_all add: shape_at_def)
  have restore: "np_rollaxis r 0 3 = Inr r'"
    unfolding r'_def using shr by (rule np_rollaxis_front_to_last)
  have "apply_transform x M fm fv 2 = Inr r'"
    unfolding apply_transform_def
    by (simp add: roll Let_def x2_def [symmetric] d1 d2 t_def [symmetric] iterate_3d [OF sh2]
        emap_resampled [OF sh2] r restore)
  moreover have "shape r' = [h, w, c]" "dtype r' = Float32"
    using shr dtr by (simp_all add: r'_def np_transpose_def)
  ultimately show ?thesis by simp
qed

lemma apply_transform_no_channel:
  assumes sh: "shape x = [h, w, 0]"
  shows "apply_transform x M fm fv default_channel_axis = Inl ValueError"
proof -
  define x1 where "x1 = np_transpose x [2, 0, 1]"
  define x2 where "x2 = astype x1 Float32"
  have roll: "np_rollaxis x (- 1) 0 = Inr x1"
    unfolding x1_def using sh by (rule np_rollaxis_last_to_front)
  have sh2: "shape x2 = [0, h, w]"
    using sh by (simp add: x2_def x1_def astype_def np_transpose_def)
  have d1: "shape_at x2 (Suc 0) = Inr h" and d2: "shape_at x2 2 = Inr w"
    using sh2 by (simp_all add: shape_at_def)
  show ?thesis
    unfolding apply_transform_def default_channel_axis_def
    by (simp add: roll Let_def x2_def [symmetric] d1 d2 iterate_3d [OF sh2] np_stack_def)
qed

text \<open>
  The identity matrix: centering keeps it, and the resampling reads every element from its
  own position, so the result holds the elements of the input with the channel axis in
  front.
\<close>

lemma center_identity3: "transform_matrix_offset_center identity3 h w = identity3"
  by (simp add: transform_matrix_offset_center_def identity3_def Let_def)

lemma nearest_index_of_nat: "nearest_index (real i) = i"
proof -
  have "\<lfloor>real i + 1 / 2\<rfloor> = int i" by linarith
  then show ?thesis by (simp add: nearest_index_def)
qed

lemma map_coordinate_inside:
  "i < len \<Longrightarrow> map_coordinate fm len (real i) = Some (real i)"
  by (cases fm) auto

lemma resampled_identity_item:
  assumes "shape x2 = [c, h, w]" and "i < h" and "j < w"
  shows "item (resampled x2 identity3 fm fv k) [i, j] = item x2 [k, i, j]"
  using assms
  by (simp add: resampled_def ndi_affine_transform_def identity3_def
      map_coordinate_inside nearest_index_of_nat)

lemma apply_transform_identity_default_axis:
  assumes sh: "shape x = [h, w, c]" and c: "0 < c"
  shows "\<exists>r. apply_transform x identity3 fm fv default_channel_axis = Inr r
           \<and> shape r = [c, h, w] \<and> dtype r = Float32
           \<and> (\<forall>k i j. k < c \<and> i < h \<and> j < w \<longrightarrow> item r [k, i, j] = item x [i, j, k])"
proof -
  define x1 where "x1 = np_transpose x [2, 0, 1]"
  define x2 where "x2 = astype x1 Float32"
  have roll: "np_rollaxis x (- 1) 0 = Inr x1"
    unfolding x1_def using sh by (rule np_rollaxis_last_to_front)
  have sh2: "shape x2 = [c, h, w]"
    using sh by (simp add: x2_def x1_def astype_def np_transpose_def)
  have dt2: "dtype x2 = Float32" by (simp add: x2_def astype_def)
  have it2: "\<And>k i j. item x2 [k, i, j] = item x [i, j, k]"
    by (simp add: x2_def x1_def astype_def np_transpose_def cast_to_def upt_rec numeral_2_eq_2)
  from np_stack_resampled [OF sh2 c, of identity3 fm fv] dt2
  obtain r where r: "np_stack (map (resampled x2 identity3 fm fv) [0..<c]) = Inr r"
    and shr: "shape r = [c, h, w]" and dtr: "dtype r = Float32"
    and itr: "\<And>k idx. k < c \<Longrightarrow> item r (k # idx) = item (resampled x2 identity3 fm fv k) idx"
    by auto
  have d1: "shape_at x2 (Suc 0) = Inr h" and d2: "shape_at x2 2 = Inr w"
    using sh2 by (simp_all add: shape_at_def)
  have stays: "np_rollaxis r 0 0 = Inr r"
    using shr by (simp add: np_rollaxis_front_stays)
  have "apply_transform x identity3 fm fv default_channel_axis = Inr r"
    unfolding apply_transform_def default_channel_axis_def
    by (simp add: roll Let_def x2_def [symmetric] d1 d2 center_identity3 iterate_3d [OF sh2]
        emap_resampled [OF sh2] r stays)
  moreover have "\<And>k i j. k < c \<Longrightarrow> i < h \<Longrightarrow> j < w \<Longrightarrow> item r [k, i, j] = item x [i, j, k]"
    by (simp add: itr resampled_identity_item [OF sh2] it2)
  ultimately show ?thesis using shr dtr by simp
qed

text \<open>
  Zero ranges: \<open>Rotate\<close> and \<open>Shear\<close> with the range 0, \<open>Translate\<close> with both fractions
  0 and \<open>Zoom\<close> with the range \<open>(1, 1)\<close> build the identity matrix. \<open>Rotate\<close>, \<open>Shear\<close>
  and \<open>Zoom\<close> still consume their draws.
\<close>

lemma Rotate_matrix_zero:
  "num_of (rotation_range self) = Inr 0 \<Longrightarrow>
     Rotate_matrix self g = Inr (identity3, g\<lparr>calls := Suc (calls g)\<rparr>)"
  by (simp add: Rotate_matrix_def random_uniform_def identity3_def)

lemma Shear_matrix_zero:
  "num_of (shear_range self) = Inr 0 \<Longrightarrow>
     Shear_matrix self g = Inr (identity3, g\<lparr>calls := Suc (calls g)\<rparr>)"
  by (simp add: Shear_matrix_def random_uniform_def identity3_def)

lemma Translate_matrix_zero:
  "num_of (height_range self) = Inr 0 \<Longrightarrow> num_of (width_range self) = Inr 0 \<Longrightarrow>
     Translate_matrix self X g = Inr (identity3, g)"
  by (simp add: Translate_matrix_def axis_shift_def identity3_def)

lemma Zoom_matrix_one:
  "num_of a = Inr 1 \<Longrightarrow> num_of b = Inr 1 \<Longrightarrow>
   zoom_range self = PyTuple [a, b] \<or> zoom_range self = PyList [a, b] \<Longrightarrow>
     Zoom_matrix self g = Inr (identity3, g\<lparr>calls := Suc (Suc (calls g))\<rparr>)"
  by (auto simp add: Zoom_matrix_def zoom_draw_def random_uniform_def identity3_def)

text \<open>
  Claim C1 (the code departs from it). The claim: \<open>apply_transform\<close> returns an array of
  the shape of its input, the channel axis in the same position, of a floating-point type.
  The code: with the default \<open>channel_axis = -1\<close>, which is what every caller in the
  module uses, the last line \<^verbatim>\<open>np.rollaxis(x, 0, channel_axis + 1)\<close> is
  \<^verbatim>\<open>np.rollaxis(x, 0, 0)\<close> and leaves the channel axis in front: the image of shape
  \<open>(1, 2, 2)\<close> comes back with the shape \<open>(2, 1, 2)\<close>. The element type is \<open>float32\<close>, as
  claimed. (Lemma \<open>apply_transform_explicit_axis\<close>: with \<open>channel_axis = 2\<close> the same line
  restores the shape.)
\<close>

theorem apply_transform_moves_channel_axis:
  "shape example_image = [1, 2, 2]
   \<and> map_sum id shape
        (apply_transform example_image (Mat3 0 (- 1) 0  1 0 0  0 0 1) Nearest 0
           default_channel_axis) = Inr [2, 1, 2]
   \<and> map_sum id (\<lambda>r. is_floating (dtype r))
        (apply_transform example_image (Mat3 0 (- 1) 0  1 0 0  0 0 1) Nearest 0
           default_channel_axis) = Inr True"
proof -
  have sh: "shape example_image = [1, 2, 2]" by (simp add: example_image_def)
  from apply_transform_default_axis [OF sh, of "Mat3 0 (- 1) 0  1 0 0  0 0 1" Nearest 0]
  show ?thesis using sh by (auto simp add: is_floating_def)
qed

text \<open>
  Claim C7 (the code departs from it). The claim: builders with zero ranges, or the zoom
  range \<open>(1, 1)\<close>, produce the identity matrix (lemmas \<open>Rotate_matrix_zero\<close>,
  \<open>Shear_matrix_zero\<close>, \<open>Translate_matrix_zero\<close>, \<open>Zoom_matrix_one\<close>), and applying the
  identity returns an image equal to the input. The code: \<open>Rotate\<close> with the range 0, not
  lazy, applied to the image of shape \<open>(1, 2, 2)\<close> returns an array of shape \<open>(2, 1, 2)\<close>,
  which is not equal to the input: its element at \<open>(1, 0, 0)\<close> is the element of the input
  at \<open>(0, 0, 1)\<close>.
\<close>

theorem identity_transform_moves_channel_axis:
  "shape example_image = [1, 2, 2]
   \<and> (case Rotate_transform (Rotate_init (PyInt 0) Constant 0 Nearest 0 False)
             example_image None example_rng of
        Inl e \<Rightarrow> False
      | Inr (res, g') \<Rightarrow>
          (case res of
             Image r \<Rightarrow> shape r = [2, 1, 2] \<and> \<not> array_equal r example_image
                         \<and> item r [1, 0, 0] = item example_image [0, 0, 1]
           | _ \<Rightarrow> False))"
proof -
  have sh: "shape example_image = [1, 2, 2]" by (simp add: example_image_def)
  from apply_transform_identity_default_axis [OF sh, of Constant 0]
  obtain r where r: "apply_transform example_image identity3 Constant 0 default_channel_axis = Inr r"
    and shr: "shape r = [2, 1, 2]"
    and itr: "\<And>k i j. k < 2 \<Longrightarrow> i < 1 \<Longrightarrow> j < 2 \<Longrightarrow> item r [k, i, j] = item example_image [i, j, k]"
    by auto
  have m: "Rotate_matrix (Rotate_init (PyInt 0) Constant 0 Nearest 0 False) example_rng
      = Inr (identity3, example_rng\<lparr>calls := Suc (calls example_rng)\<rparr>)"
    by (rule Rotate_matrix_zero) (simp add: Rotate_init_def)
  have ne: "\<not> array_equal r example_image"
    by (simp add: array_equal_def shr sh)
  have "item r [1, 0, 0] = item example_image [0, 0, 1]"
    by (rule itr) simp_all
  moreover have cfg: "\<not> lazy (Rotate_init (PyInt 0) Constant 0 Nearest 0 False)"
      "fill_mode (Rotate_init (PyInt 0) Constant 0 Nearest 0 False) = Constant"
      "fill_value (Rotate_init (PyInt 0) Constant 0 Nearest 0 False) = 0"
    by (simp_all add: Rotate_init_def)
  ultimately show ?thesis using sh shr ne
    by (simp add: Rotate_transform_def m return_or_apply_def r)
qed

subsection \<open>The composers\<close>

lemma call_object_TypeError: "call_object t X g = Inl TypeError"
  by (cases t) simp_all

lemma collect_matrices_call_object:
  "collect_matrices call_object ts X g = (if ts = [] then Inl IndexError else Inl TypeError)"
  by (cases ts) (simp_all add: collect_matrices_def call_object_TypeError)

text \<open>
  The loop itself multiplies in declared order: whatever the way the sub-transforms are
  called, the matrix it collects is the ordered product of the matrices they return.
\<close>

lemma ordered_product_dot:
  "ordered_product (np_dot m0 m) ms = np_dot m0 (ordered_product m ms)"
  by (induction ms arbitrary: m0 m) (simp_all add: np_dot_assoc)

lemma accumulate_product:
  "accumulate call m0 ts X g =
     ebind (invoke_all call ts X g) (\<lambda>(ms, g'). Inr (ordered_product m0 ms, g'))"
proof (induction ts arbitrary: m0 g)
  case Nil
  show ?case by simp
next
  case (Cons t ts)
  show ?case
  proof (cases "call t X g")
    case (Inl e)
    then show ?thesis by simp
  next
    case (Inr p)
    obtain m g' where p: "p = (m, g')" by (cases p)
    show ?thesis
    proof (cases "invoke_all call ts X g'")
      case (Inl e)
      with Inr p Cons.IH [of "np_dot m0 m" g'] show ?thesis by simp
    next
      case (Inr q)
      obtain ms g'' where q: "q = (ms, g'')" by (cases q)
      from \<open>call t X g = Inr p\<close> p Inr q Cons.IH [of "np_dot m0 m" g']
      show ?thesis by (simp add: ordered_product_dot)
    qed
  qed
qed

lemma collect_matrices_product:
  "collect_matrices call (t # ts) X g =
     ebind (invoke_all call (t # ts) X g) (\<lambda>(ms, g'). Inr (ordered_product (hd ms) (tl ms), g'))"
proof (cases "call t X g")
  case (Inl e)
  then show ?thesis by (simp add: collect_matrices_def)
next
  case (Inr p)
  obtain m g' where p: "p = (m, g')" by (cases p)
  show ?thesis
  proof (cases "invoke_all call ts X g'")
    case (Inl e)
    with Inr p show ?thesis by (simp add: collect_matrices_def accumulate_product)
  next
    case (Inr q)
    obtain ms g'' where q: "q = (ms, g'')" by (cases q)
    from \<open>call t X g = Inr p\<close> p Inr q show ?thesis
      by (simp add: collect_matrices_def accumulate_product)
  qed
qed

lemma collect_matrices_single: "collect_matrices call [t] X g = call t X g"
  by (cases "call t X g") (auto simp add: collect_matrices_def)

text \<open>
  A lazy builder's \<open>transform\<close> returns the matrix the specification's \<open>spec_invoke\<close>
  reads, and \<open>AffineCompose\<close> makes every builder lazy: had the composers invoked
  \<open>transform\<close>, \<open>collect_matrices_product\<close> and \<open>collect_matrices_single\<close> at
  \<open>call = spec_invoke\<close> would give the product of the claim.
\<close>

lemma set_lazy_lazy: "builder_lazy (set_lazy b)"
  by (cases b) simp_all

lemma builder_transform_lazy:
  "builder_lazy b \<Longrightarrow>
     builder_transform b X y g = ebind (spec_invoke b X g) (\<lambda>(m, g'). Inr (Matrix m, g'))"
  by (cases b)
    (auto simp add: Rotate_transform_def Translate_transform_def Shear_transform_def
      Zoom_transform_def return_or_apply_def ebind_def split: sum.splits)

text \<open>Once a matrix is collected, it is the one matrix applied to the image and to the target.\<close>

lemma apply_to_both_with_target:
  "apply_to_both self M X (Some y) =
     ebind (apply_transform X M (fill_mode self) (fill_value self) default_channel_axis) (\<lambda>X'.
     ebind (apply_transform y M (target_fill_mode self) (target_fill_value self)
              default_channel_axis) (\<lambda>y'.
       Inr (ImagePair X' y')))"
  by (simp add: apply_to_both_def)

lemma apply_to_both_without_target:
  "apply_to_both self M X None =
     ebind (apply_transform X M (fill_mode self) (fill_value self) default_channel_axis) (\<lambda>X'.
       Inr (Image X'))"
  by (simp add: apply_to_both_def)

lemma composer_nonempty_TypeError:
  "transforms self \<noteq> [] \<Longrightarrow>
     Affine_transform self X y g = Inl TypeError \<and>
     AffineCompose_transform self X y g = Inl TypeError"
  by (simp add: Affine_transform_def AffineCompose_transform_def collect_matrices_call_object)

text \<open>
  Claim C3 (the code departs from it). The claim: with a target \<open>y\<close>, \<open>transform\<close> of
  \<open>Affine\<close> and \<open>AffineCompose\<close> applies one composed matrix to the image and to the target
  and returns the pair. The code: on a composer that holds a builder, \<open>transform\<close> calls the
  builder object itself, which is not callable, and raises \<^verbatim>\<open>TypeError\<close> before any
  matrix is built; no pair is returned.
\<close>

theorem composer_transform_with_target_raises:
  "AffineCompose_transform
      (AffineCompose_init
         [Rotate_obj (Rotate_init (PyFloat 10) Constant 0 Nearest 0 False),
          Shear_obj (Shear_init (PyFloat (1 / 10)) Constant 0 Nearest 0 False)]
         Constant 0 Nearest 0)
      example_image (Some example_target) example_rng = Inl TypeError
   \<and> ebind (Affine_init (PyFloat 10) PyNone (PyFloat (1 / 10)) PyNone Constant 0 Nearest 0)
        (\<lambda>a. Affine_transform a example_image (Some example_target) example_rng) = Inl TypeError"
  by (simp add: Affine_init_def Affine_transform_def AffineCompose_transform_def
      AffineCompose_init_def collect_matrices_call_object)

text \<open>
  Claim C4 (the code departs from it). The claim: the composer builds the ordered product
  \<open>M\<^sub>0 \<cdot> M\<^sub>1 \<cdot> \<dots> \<cdot> M\<^sub>n\<close> of the matrices of its sub-transforms, and with exactly one
  sub-transform the composed matrix is \<open>M\<^sub>0\<close> and no error is raised. The code: an
  \<open>Affine\<close> configured with a rotation range alone holds exactly one sub-transform, and its
  \<open>transform\<close> raises \<^verbatim>\<open>TypeError\<close>; so does an \<open>AffineCompose\<close> of two builders.
\<close>

theorem composer_single_builder_raises:
  "map_sum id (\<lambda>a. length (transforms a))
       (Affine_init (PyFloat 10) PyNone PyNone PyNone Constant 0 Nearest 0) = Inr 1
   \<and> ebind (Affine_init (PyFloat 10) PyNone PyNone PyNone Constant 0 Nearest 0)
        (\<lambda>a. Affine_transform a example_image None example_rng) = Inl TypeError
   \<and> AffineCompose_transform
        (AffineCompose_init
           [Rotate_obj (Rotate_init (PyFloat 10) Constant 0 Nearest 0 False),
            Shear_obj (Shear_init (PyFloat (1 / 10)) Constant 0 Nearest 0 False)]
           Constant 0 Nearest 0)
        example_image None example_rng = Inl TypeError"
  by (simp add: Affine_init_def Affine_transform_def AffineCompose_transform_def
      AffineCompose_init_def collect_matrices_call_object)

text \<open>
  Claim C5. Calling \<open>transform\<close> on an \<open>Affine\<close> or \<open>AffineCompose\<close> whose list of
  sub-transforms is empty raises an error (\<^verbatim>\<open>IndexError\<close>, from \<^verbatim>\<open>self.transforms[0]\<close>),
  whatever the image, the target and the random source: it never returns the image.
\<close>

theorem composer_empty_raises:
  "transforms self = [] \<Longrightarrow>
     Affine_transform self X y g = Inl IndexError \<and>
     AffineCompose_transform self X y g = Inl IndexError"
  by (simp add: Affine_transform_def AffineCompose_transform_def collect_matrices_def)

theorem composer_empty_raises_witness:
  "ebind (Affine_init PyNone PyNone PyNone PyNone Constant 0 Nearest 0)
     (\<lambda>a. Affine_transform a example_image None example_rng) = Inl IndexError
   \<and> AffineCompose_transform (AffineCompose_init [] Constant 0 Nearest 0)
        example_image (Some example_target) example_rng = Inl IndexError"
  using composer_empty_raises
      [of "\<lparr>fill_mode = Constant, fill_value = 0, target_fill_mode = Nearest,
            target_fill_value = 0, transforms = []\<rparr>" example_image None example_rng]
    composer_empty_raises
      [of "\<lparr>fill_mode = Constant, fill_value = 0, target_fill_mode = Nearest,
            target_fill_value = 0, transforms = []\<rparr>" example_image "Some example_target"
          example_rng]
  by (simp add: Affine_init_def AffineCompose_init_def)

subsection \<open>Translate\<close>

text \<open>
  One axis: a fraction that is not positive gives the shift 0 and leaves the random source
  as it was; a positive fraction consumes one draw, which lies between \<open>- f\<close> and \<open>f\<close>.
\<close>

lemma axis_shift_not_positive:
  "num_of fr = Inr f \<Longrightarrow> f \<le> 0 \<Longrightarrow> axis_shift fr X axis g = Inr (0, g)"
  by (simp add: axis_shift_def)

lemma axis_shift_positive:
  "num_of fr = Inr f \<Longrightarrow> 0 < f \<Longrightarrow> axis < length (shape X) \<Longrightarrow>
     axis_shift fr X axis g =
       Inr (fst (random_uniform (- f) f g) * real (shape X ! axis), g\<lparr>calls := Suc (calls g)\<rparr>)"
  by (simp add: axis_shift_def random_uniform_def shape_at_def)

lemma random_uniform_symmetric_bounds:
  assumes "unit_draws g" and "0 < f"
  shows "- f \<le> fst (random_uniform (- f) f g) \<and> fst (random_uniform (- f) f g) < f"
proof -
  let ?u = "source g (calls g)"
  from assms(1) have u: "0 \<le> ?u" "?u < 1" by (simp_all add: unit_draws_def)
  have eq: "fst (random_uniform (- f) f g) = - f + 2 * f * ?u"
    by (simp add: random_uniform_def)
  from u assms(2) have "0 \<le> 2 * f * ?u" by simp
  moreover from u assms(2) have "2 * f * ?u < 2 * f * 1"
    by (intro mult_strict_left_mono) simp_all
  ultimately show ?thesis unfolding eq by simp
qed

text \<open>Both axes: the matrix a call builds and the draws it consumes.\<close>

lemma Translate_matrix_char:
  assumes h: "num_of (height_range self) = Inr fh"
    and w: "num_of (width_range self) = Inr fw"
    and dh: "0 < fh \<Longrightarrow> 1 \<le> length (shape X)"
    and dw: "0 < fw \<Longrightarrow> 2 \<le> length (shape X)"
  shows "Translate_matrix self X g =
     Inr (Mat3 1 0 (if 0 < fh then fst (random_uniform (- fh) fh g) * real (shape X ! 0) else 0)
               0 1 (if 0 < fw
                    then fst (random_uniform (- fw) fw (g\<lparr>calls := calls g + (if 0 < fh then 1 else 0)\<rparr>))
                         * real (shape X ! 1)
                    else 0)
               0 0 1,
          g\<lparr>calls := calls g + (if 0 < fh then 1 else 0) + (if 0 < fw then 1 else 0)\<rparr>)"
proof (cases "0 < fh")
  case True
  with dh have l0: "0 < length (shape X)" by (cases "shape X") simp_all
  show ?thesis
  proof (cases "0 < fw")
    case fwp: True
    with dw have l1: "Suc 0 < length (shape X)" by simp
    from True fwp show ?thesis
      by (simp add: Translate_matrix_def axis_shift_positive [OF h True l0]
          axis_shift_positive [OF w fwp l1])
  next
    case False
    then have "fw \<le> 0" by simp
    with True show ?thesis
      by (simp add: Translate_matrix_def axis_shift_positive [OF h True l0]
          axis_shift_not_positive [OF w])
  qed
next
  case False
  then have fh0: "fh \<le> 0" by simp
  show ?thesis
  proof (cases "0 < fw")
    case fwp: True
    with dw have l1: "Suc 0 < length (shape X)" by simp
    from False fwp show ?thesis
      by (simp add: Translate_matrix_def axis_shift_not_positive [OF h fh0]
          axis_shift_positive [OF w fwp l1])
  next
    case fwn: False
    then have "fw \<le> 0" by simp
    with False fwn show ?thesis
      by (simp add: Translate_matrix_def axis_shift_not_positive [OF h fh0]
          axis_shift_not_positive [OF w])
  qed
qed

lemma unit_draws_calls [simp]: "unit_draws (g\<lparr>calls := k\<rparr>) = unit_draws g"
  by (simp add: unit_draws_def)

text \<open>
  The rest of a \<open>transform\<close> method, after its matrix is built: a lazy object returns the
  matrix, any other applies it to the image and, if given, to the target.
\<close>

lemma Translate_transform_unfold:
  "Translate_matrix self X g = Inr (M, g') \<Longrightarrow>
     Translate_transform self X y g = ebind (return_or_apply self M X y) (\<lambda>r. Inr (r, g'))"
  by (simp add: Translate_transform_def)

lemma return_or_apply_not_lazy:
  "\<not> lazy self \<Longrightarrow>
     ebind (return_or_apply self M X y) (\<lambda>r. Inr (r, g')) =
       ebind (apply_transform X M (fill_mode self) (fill_value self) default_channel_axis)
         (\<lambda>x_transformed.
            case y of
              Some y0 \<Rightarrow>
                ebind (apply_transform y0 M (target_fill_mode self) (target_fill_value self)
                         default_channel_axis)
                  (\<lambda>y_transformed. Inr (ImagePair x_transformed y_transformed, g'))
            | None \<Rightarrow> Inr (Image x_transformed, g'))"
  by (auto simp add: return_or_apply_def ebind_def split: sum.splits option.splits)

lemma return_or_apply_lazy:
  "lazy self \<Longrightarrow> ebind (return_or_apply self M X y) (\<lambda>r. Inr (r, g')) = Inr (Matrix M, g')"
  by (simp add: return_or_apply_def)

text \<open>
  Claim C8. Let the height and width fractions of a \<open>Translate\<close> be the numbers \<open>fh\<close> and
  \<open>fw\<close>, and let the image have the dimensions a sampled axis reads. Then every call of
  \<open>transform\<close> builds a translation matrix \<open>[[1, 0, tx], [0, 1, ty], [0, 0, 1]]\<close> and goes
  on with that matrix: a lazy object returns it, any other applies it to the image (and to
  the target) by \<open>apply_transform\<close>. If a fraction is 0 the shift of that axis is exactly 0
  and the only draw consumed, if any, is the one of the other axis. If a fraction \<open>f\<close> is
  positive the shift of that axis is \<^verbatim>\<open>random.uniform(-f, f)\<close> times the dimension of the
  image on that axis, the draw lying between \<open>- f\<close> and \<open>f\<close>.
\<close>

theorem Translate_fraction_shift:
  assumes h: "num_of (height_range self) = Inr fh"
    and w: "num_of (width_range self) = Inr fw"
    and dh: "0 < fh \<Longrightarrow> 1 \<le> length (shape X)"
    and dw: "0 < fw \<Longrightarrow> 2 \<le> length (shape X)"
  shows "\<exists>tx ty g'.
      Translate_matrix self X g = Inr (Mat3 1 0 tx  0 1 ty  0 0 1, g')
    \<and> Translate_transform self X y g =
        ebind (return_or_apply self (Mat3 1 0 tx  0 1 ty  0 0 1) X y) (\<lambda>r. Inr (r, g'))
    \<and> (lazy self \<longrightarrow> Translate_transform self X y g = Inr (Matrix (Mat3 1 0 tx  0 1 ty  0 0 1), g'))
    \<and> (\<not> lazy self \<longrightarrow>
         Translate_transform self X y g =
           ebind (apply_transform X (Mat3 1 0 tx  0 1 ty  0 0 1) (fill_mode self) (fill_value self)
                    default_channel_axis)
             (\<lambda>x_transformed.
                case y of
                  Some y0 \<Rightarrow>
                    ebind (apply_transform y0 (Mat3 1 0 tx  0 1 ty  0 0 1) (target_fill_mode self)
                             (target_fill_value self) default_channel_axis)
                      (\<lambda>y_transformed. Inr (ImagePair x_transformed y_transformed, g'))
                | None \<Rightarrow> Inr (Image x_transformed, g')))
    \<and> (fh = 0 \<longrightarrow> tx = 0 \<and> calls g' = calls g + (if 0 < fw then 1 else 0))
    \<and> (fw = 0 \<longrightarrow> ty = 0 \<and> calls g' = calls g + (if 0 < fh then 1 else 0))
    \<and> (0 < fh \<longrightarrow>
         (\<exists>u. u = fst (random_uniform (- fh) fh g) \<and> tx = u * real (shape X ! 0)
              \<and> (unit_draws g \<longrightarrow> - fh \<le> u \<and> u < fh)))
    \<and> (0 < fw \<longrightarrow>
         (\<exists>u. u = fst (random_uniform (- fw) fw (g\<lparr>calls := calls g + (if 0 < fh then 1 else 0)\<rparr>))
              \<and> ty = u * real (shape X ! 1)
              \<and> (unit_draws g \<longrightarrow> - fw \<le> u \<and> u < fw)))"
proof -
  let ?tx = "if 0 < fh then fst (random_uniform (- fh) fh g) * real (shape X ! 0) else 0"
  let ?ty = "if 0 < fw
             then fst (random_uniform (- fw) fw (g\<lparr>calls := calls g + (if 0 < fh then 1 else 0)\<rparr>))
                  * real (shape X ! 1)
             else 0"
  let ?g' = "g\<lparr>calls := calls g + (if 0 < fh then 1 else 0) + (if 0 < fw then 1 else 0)\<rparr>"
  let ?M = "Mat3 1 0 ?tx  0 1 ?ty  0 0 1"
  have char: "Translate_matrix self X g = Inr (?M, ?g')"
    by (rule Translate_matrix_char [OF h w dh dw])
  have tr: "Translate_transform self X y g = ebind (return_or_apply self ?M X y) (\<lambda>r. Inr (r, ?g'))"
    using char by (rule Translate_transform_unfold)
  have lz: "lazy self \<Longrightarrow> Translate_transform self X y g = Inr (Matrix ?M, ?g')"
    unfolding tr by (rule return_or_apply_lazy)
  have nlz: "\<not> lazy self \<Longrightarrow>
      Translate_transform self X y g =
        ebind (apply_transform X ?M (fill_mode self) (fill_value self) default_channel_axis)
          (\<lambda>x_transformed.
             case y of
               Some y0 \<Rightarrow>
                 ebind (apply_transform y0 ?M (target_fill_mode self) (target_fill_value self)
                          default_channel_axis)
                   (\<lambda>y_transformed. Inr (ImagePair x_transformed y_transformed, ?g'))
             | None \<Rightarrow> Inr (Image x_transformed, ?g'))"
    unfolding tr by (rule return_or_apply_not_lazy)
  have bh: "unit_draws g \<Longrightarrow> 0 < fh \<Longrightarrow>
      - fh \<le> fst (random_uniform (- fh) fh g) \<and> fst (random_uniform (- fh) fh g) < fh"
    by (rule random_uniform_symmetric_bounds)
  have bw: "unit_draws g \<Longrightarrow> 0 < fw \<Longrightarrow>
      - fw \<le> fst (random_uniform (- fw) fw (g\<lparr>calls := calls g + (if 0 < fh then 1 else 0)\<rparr>))
      \<and> fst (random_uniform (- fw) fw (g\<lparr>calls := calls g + (if 0 < fh then 1 else 0)\<rparr>)) < fw"
    by (rule random_uniform_symmetric_bounds) simp_all
  have rest: "(fh = 0 \<longrightarrow> ?tx = 0 \<and> calls ?g' = calls g + (if 0 < fw then 1 else 0))
    \<and> (fw = 0 \<longrightarrow> ?ty = 0 \<and> calls ?g' = calls g + (if 0 < fh then 1 else 0))
    \<and> (0 < fh \<longrightarrow>
         (\<exists>u. u = fst (random_uniform (- fh) fh g) \<and> ?tx = u * real (shape X ! 0)
              \<and> (unit_draws g \<longrightarrow> - fh \<le> u \<and> u < fh)))
    \<and> (0 < fw \<longrightarrow>
         (\<exists>u. u = fst (random_uniform (- fw) fw (g\<lparr>calls := calls g + (if 0 < fh then 1 else 0)\<rparr>))
              \<and> ?ty = u * real (shape X ! 1)
              \<and> (unit_draws g \<longrightarrow> - fw \<le> u \<and> u < fw)))"
    using bh bw by simp
  from char tr lz nlz rest show ?thesis by blast
qed

theorem Translate_fraction_shift_witness:
  "Translate_matrix
      \<lparr>fill_mode = Constant, fill_value = 0, target_fill_mode = Nearest, target_fill_value = 0,
       lazy = True, height_range = PyInt 0, width_range = PyFloat (1 / 10)\<rparr>
      example_image example_rng
    = Inr (Mat3 1 0 0  0 1 (1 / 10)  0 0 1, example_rng\<lparr>calls := 1\<rparr>)
   \<and> Translate_transform
      \<lparr>fill_mode = Constant, fill_value = 0, target_fill_mode = Nearest, target_fill_value = 0,
       lazy = True, height_range = PyInt 0, width_range = PyFloat (1 / 10)\<rparr>
      example_image None example_rng
    = Inr (Matrix (Mat3 1 0 0  0 1 (1 / 10)  0 0 1), example_rng\<lparr>calls := 1\<rparr>)"
  using Translate_fraction_shift
    [of "\<lparr>fill_mode = Constant, fill_value = 0, target_fill_mode = Nearest, target_fill_value = 0,
          lazy = True, height_range = PyInt 0, width_range = PyFloat (1 / 10)\<rparr>"
        0 "1 / 10" example_image example_rng None]
  by (simp add: Translate_transform_def return_or_apply_def Translate_matrix_def axis_shift_def
      shape_at_def example_image_def example_rng_def random_uniform_def)


lemma Translate_init_float:
  "Translate_init (PyFloat f) fm fv tfm tfv lz =
     Inr \<lparr>fill_mode = fm, fill_value = fv, target_fill_mode = tfm, target_fill_value = tfv,
          lazy = lz, height_range = PyFloat f, width_range = PyFloat f\<rparr>"
  by (simp add: Translate_init_def)

lemma Translate_init_int: "Translate_init (PyInt i) fm fv tfm tfv lz = Inl TypeError"
  by (simp add: Translate_init_def)



subsection \<open>Zoom\<close>

lemma zoom_draw_pair:
  "num_of a = Inr lo \<Longrightarrow> num_of b = Inr hi \<Longrightarrow> z = PyList [a, b] \<or> z = PyTuple [a, b] \<Longrightarrow>
     zoom_draw z g = Inr (random_uniform lo hi g)"
  by (auto simp add: zoom_draw_def)

lemma Zoom_matrix_values:
  assumes "num_of a = Inr lo" and "num_of b = Inr hi"
    and "zoom_range self = PyList [a, b] \<or> zoom_range self = PyTuple [a, b]"
  shows "Zoom_matrix self g =
     Inr (Mat3 (fst (random_uniform lo hi g)) 0 0
               0 (fst (random_uniform lo hi (g\<lparr>calls := Suc (calls g)\<rparr>))) 0
               0 0 1,
          g\<lparr>calls := calls g + 2\<rparr>)"
  using assms
  by (auto simp add: Zoom_matrix_def zoom_draw_pair [OF assms(1,2)] random_uniform_def)

lemma Zoom_transform_unfold:
  "Zoom_matrix self g = Inr (M, g') \<Longrightarrow>
     Zoom_transform self X y g = ebind (return_or_apply self M X y) (\<lambda>r. Inr (r, g'))"
  by (simp add: Zoom_transform_def)

text \<open>
  Claim C2, as the code has it. The constructor of \<open>Zoom\<close> raises \<^verbatim>\<open>ValueError\<close>, at
  construction time, whenever \<open>zoom_range\<close> is neither a list nor a tuple. For every list or
  tuple of two numbers \<open>(lo, hi)\<close>, whatever their order and their sign, construction
  succeeds, and every later call of \<open>transform\<close> samples the two factors, each as
  \<^verbatim>\<open>random.uniform(lo, hi)\<close> on a draw of its own, builds the matrix
  \<open>[[zx, 0, 0], [0, zy, 0], [0, 0, 1]]\<close> without raising, and goes on with that matrix: a
  lazy object returns it, any other applies it.
\<close>

theorem Zoom_init_checks_sequence_only:
  "(\<not> is_list_or_tuple z \<longrightarrow> Zoom_init z fm fv tfm tfv lz = Inl ValueError)
   \<and> (num_of a = Inr lo \<and> num_of b = Inr hi \<and> (z = PyList [a, b] \<or> z = PyTuple [a, b]) \<longrightarrow>
        Zoom_init z fm fv tfm tfv lz =
          Inr \<lparr>fill_mode = fm, fill_value = fv, target_fill_mode = tfm, target_fill_value = tfv,
               lazy = lz, zoom_range = z\<rparr>
        \<and> (\<forall>self g X y. zoom_range self = z \<longrightarrow>
              Zoom_matrix self g =
                Inr (Mat3 (fst (random_uniform lo hi g)) 0 0
                          0 (fst (random_uniform lo hi (g\<lparr>calls := Suc (calls g)\<rparr>))) 0
                          0 0 1,
                     g\<lparr>calls := calls g + 2\<rparr>)
              \<and> Zoom_transform self X y g =
                  ebind (return_or_apply self
                           (Mat3 (fst (random_uniform lo hi g)) 0 0
                                 0 (fst (random_uniform lo hi (g\<lparr>calls := Suc (calls g)\<rparr>))) 0
                                 0 0 1) X y)
                    (\<lambda>r. Inr (r, g\<lparr>calls := calls g + 2\<rparr>))
              \<and> (lazy self \<longrightarrow>
                   Zoom_transform self X y g =
                     Inr (Matrix (Mat3 (fst (random_uniform lo hi g)) 0 0
                                       0 (fst (random_uniform lo hi (g\<lparr>calls := Suc (calls g)\<rparr>))) 0
                                       0 0 1),
                          g\<lparr>calls := calls g + 2\<rparr>))
              \<and> (\<not> lazy self \<longrightarrow>
                   Zoom_transform self X y g =
                     ebind (apply_transform X
                              (Mat3 (fst (random_uniform lo hi g)) 0 0
                                    0 (fst (random_uniform lo hi (g\<lparr>calls := Suc (calls g)\<rparr>))) 0
                                    0 0 1)
                              (fill_mode self) (fill_value self) default_channel_axis)
                       (\<lambda>x_transformed.
                          case y of
                            Some y0 \<Rightarrow>
                              ebind (apply_transform y0
                                       (Mat3 (fst (random_uniform lo hi g)) 0 0
                                             0 (fst (random_uniform lo hi
                                                       (g\<lparr>calls := Suc (calls g)\<rparr>))) 0
                                             0 0 1)
                                       (target_fill_mode self) (target_fill_value self)
                                       default_channel_axis)
                                (\<lambda>y_transformed.
                                   Inr (ImagePair x_transformed y_transformed,
                                        g\<lparr>calls := calls g + 2\<rparr>))
                          | None \<Rightarrow> Inr (Image x_transformed, g\<lparr>calls := calls g + 2\<rparr>)))))"
proof (intro conjI impI allI)
  assume "\<not> is_list_or_tuple z"
  then show "Zoom_init z fm fv tfm tfv lz = Inl ValueError" by (simp add: Zoom_init_def)
next
  assume p: "num_of a = Inr lo \<and> num_of b = Inr hi \<and> (z = PyList [a, b] \<or> z = PyTuple [a, b])"
  then show "Zoom_init z fm fv tfm tfv lz =
          Inr \<lparr>fill_mode = fm, fill_value = fv, target_fill_mode = tfm, target_fill_value = tfv,
               lazy = lz, zoom_range = z\<rparr>"
    by (auto simp add: Zoom_init_def)
next
  fix self :: Zoom and g :: rng and X :: ndarray and y :: "ndarray option"
  assume p: "num_of a = Inr lo \<and> num_of b = Inr hi \<and> (z = PyList [a, b] \<or> z = PyTuple [a, b])"
    and z: "zoom_range self = z"
  let ?M = "Mat3 (fst (random_uniform lo hi g)) 0 0
                 0 (fst (random_uniform lo hi (g\<lparr>calls := Suc (calls g)\<rparr>))) 0
                 0 0 1"
  from p z have zr: "zoom_range self = PyList [a, b] \<or> zoom_range self = PyTuple [a, b]" by simp
  from p have na: "num_of a = Inr lo" and nb: "num_of b = Inr hi" by simp_all
  show m: "Zoom_matrix self g = Inr (?M, g\<lparr>calls := calls g + 2\<rparr>)"
    using na nb zr by (rule Zoom_matrix_values)
  show t: "Zoom_transform self X y g =
      ebind (return_or_apply self ?M X y) (\<lambda>r. Inr (r, g\<lparr>calls := calls g + 2\<rparr>))"
    using m by (rule Zoom_transform_unfold)
  show "Zoom_transform self X y g = Inr (Matrix ?M, g\<lparr>calls := calls g + 2\<rparr>)"
    if "lazy self"
    unfolding t using that by (rule return_or_apply_lazy)
  show "Zoom_transform self X y g =
      ebind (apply_transform X ?M (fill_mode self) (fill_value self) default_channel_axis)
        (\<lambda>x_transformed.
           case y of
             Some y0 \<Rightarrow>
               ebind (apply_transform y0 ?M (target_fill_mode self) (target_fill_value self)
                        default_channel_axis)
                 (\<lambda>y_transformed.
                    Inr (ImagePair x_transformed y_transformed, g\<lparr>calls := calls g + 2\<rparr>))
           | None \<Rightarrow> Inr (Image x_transformed, g\<lparr>calls := calls g + 2\<rparr>))"
    if "\<not> lazy self"
    unfolding t using that by (rule return_or_apply_not_lazy)
qed

theorem Zoom_init_checks_sequence_only_witness:
  "Zoom_init (PyFloat (3 / 2)) Constant 0 Nearest 0 False = Inl ValueError
   \<and> Zoom_init (PyTuple [PyFloat (7 / 10), PyFloat (7 / 5)]) Constant 0 Nearest 0 True =
       Inr \<lparr>fill_mode = Constant, fill_value = 0, target_fill_mode = Nearest, target_fill_value = 0,
            lazy = True, zoom_range = PyTuple [PyFloat (7 / 10), PyFloat (7 / 5)]\<rparr>
   \<and> Zoom_transform
        \<lparr>fill_mode = Constant, fill_value = 0, target_fill_mode = Nearest, target_fill_value = 0,
         lazy = True, zoom_range = PyTuple [PyFloat (7 / 10), PyFloat (7 / 5)]\<rparr>
        example_image None example_rng
       = Inr (Matrix (Mat3 (49 / 40) 0 0  0 (49 / 40) 0  0 0 1), example_rng\<lparr>calls := 2\<rparr>)"
  using Zoom_init_checks_sequence_only [of "PyFloat (3 / 2)" Constant 0 Nearest 0 False]
    Zoom_init_checks_sequence_only
      [of "PyTuple [PyFloat (7 / 10), PyFloat (7 / 5)]" Constant 0 Nearest 0 True
          "PyFloat (7 / 10)" "7 / 10" "PyFloat (7 / 5)" "7 / 5"]
  by (simp add: Zoom_init_def Zoom_transform_def Zoom_matrix_def zoom_draw_def
      return_or_apply_def example_rng_def random_uniform_def)

text \<open>
  Claim C2 as stated fails: the pair \<open>(1.4, 0.7)\<close>, which is not ordered, and the pair
  \<open>(-1, 2)\<close>, which is not positive, are not zoom ranges in the sense of the specification,
  and the constructor accepts both.
\<close>

theorem Zoom_init_accepts_invalid_pairs:
  "\<not> spec_zoom_pair (PyTuple [PyFloat (7 / 5), PyFloat (7 / 10)])
   \<and> Zoom_init (PyTuple [PyFloat (7 / 5), PyFloat (7 / 10)]) Constant 0 Nearest 0 False =
       Inr \<lparr>fill_mode = Constant, fill_value = 0, target_fill_mode = Nearest, target_fill_value = 0,
            lazy = False, zoom_range = PyTuple [PyFloat (7 / 5), PyFloat (7 / 10)]\<rparr>
   \<and> \<not> spec_zoom_pair (PyTuple [PyInt (- 1), PyInt 2])
   \<and> Zoom_init (PyTuple [PyInt (- 1), PyInt 2]) Constant 0 Nearest 0 False =
       Inr \<lparr>fill_mode = Constant, fill_value = 0, target_fill_mode = Nearest, target_fill_value = 0,
            lazy = False, zoom_range = PyTuple [PyInt (- 1), PyInt 2]\<rparr>"
  by (simp add: Zoom_init_def)

text \<open>The length is not checked either: an empty tuple is accepted, and the first call raises.\<close>

lemma Zoom_empty_deferred:
  "Zoom_init (PyTuple []) fm fv tfm tfv lz =
       Inr \<lparr>fill_mode = fm, fill_value = fv, target_fill_mode = tfm, target_fill_value = tfv,
            lazy = lz, zoom_range = PyTuple []\<rparr>
   \<and> Zoom_matrix \<lparr>fill_mode = fm, fill_value = fv, target_fill_mode = tfm, target_fill_value = tfv,
            lazy = lz, zoom_range = PyTuple []\<rparr> g = Inl IndexError"
  by (simp add: Zoom_init_def Zoom_matrix_def zoom_draw_def)

subsection \<open>Object state\<close>

text \<open>
  By induction on the calls of \<open>transform_of\<close> and \<open>transform_seq\<close>: an object that
  holds no \<open>ToCategorical\<close> with \<open>num_classes\<close> unset comes back as it was.
\<close>

lemma transform_keeps_object:
  "(\<not> infers_num_classes obj \<longrightarrow> snd (transform_of obj X g) = obj)"
  "(\<not> list_ex infers_num_classes ts \<longrightarrow> snd (transform_seq ts X g) = ts)"
proof (induction obj X g and ts X g rule: transform_of_transform_seq.induct)
  case (1 ts X g)
  then show ?case by (auto split: prod.splits)
next
  case (4 num_classes X g)
  then show ?case
    by (auto simp add: ToCategorical_transform_def Let_def split: prod.splits sum.splits)
next
  case (10 tx rest X g)
  then show ?case
    by (auto split: prod.splits sum.splits)
qed simp_all

lemma ravel_int_example_labels: "ravel_int example_labels = [0, 2, 1]"
  by (simp add: ravel_int_def indices_def example_labels_def trunc_int_def upt_rec)

lemma ravel_int_later_labels: "ravel_int later_labels = [0, 3]"
  by (simp add: ravel_int_def indices_def later_labels_def trunc_int_def upt_rec)

lemma ToCategorical_infers:
  "num_classes = None \<or> num_classes = Some 0 \<Longrightarrow> ravel_int X = x # xs \<Longrightarrow>
     snd (ToCategorical_transform num_classes X) = Some (fold max xs x + 1)"
  by (auto simp add: ToCategorical_transform_def np_max_def)

text \<open>
  Claim C9, as the code has it. Calling \<open>transform\<close> leaves the object as it was for every
  transform object of the module except a \<open>ToCategorical\<close> whose \<open>num_classes\<close> is
  unset (\<^verbatim>\<open>None\<close> or 0) and a \<open>Compose\<close> that holds one. A \<open>ToCategorical\<close> with
  \<open>num_classes\<close> unset, called on a non-empty input, stores the largest class index plus
  one in \<open>num_classes\<close>, and the object keeps it after the call.
\<close>

theorem transform_keeps_configuration:
  "(\<not> infers_num_classes obj \<longrightarrow> snd (transform_of obj X g) = obj)
   \<and> ((num_classes = None \<or> num_classes = Some 0) \<and> ravel_int Y = x # xs \<longrightarrow>
        snd (ToCategorical_transform num_classes Y) = Some (fold max xs x + 1)
        \<and> snd (transform_of (ToCategorical_obj num_classes) Y g)
            = ToCategorical_obj (Some (fold max xs x + 1)))"
  using transform_keeps_object(1) [of obj X g] ToCategorical_infers [of num_classes Y x xs]
  by (auto split: prod.splits)

theorem transform_keeps_configuration_witness:
  "snd (transform_of
          (Compose_obj
             [TypeCast_obj Float32,
              Builder_obj (Rotate_obj (Rotate_init (PyInt 0) Constant 0 Nearest 0 True)),
              ToCategorical_obj (Some 3)])
          example_labels example_rng)
     = Compose_obj
         [TypeCast_obj Float32,
          Builder_obj (Rotate_obj (Rotate_init (PyInt 0) Constant 0 Nearest 0 True)),
          ToCategorical_obj (Some 3)]
   \<and> snd (ToCategorical_transform None example_labels) = Some 3"
  using transform_keeps_configuration
    [of "Compose_obj
           [TypeCast_obj Float32,
            Builder_obj (Rotate_obj (Rotate_init (PyInt 0) Constant 0 Nearest 0 True)),
            ToCategorical_obj (Some 3)]"
        example_labels example_rng None example_labels 0 "[2, 1]"]
  by (simp add: ravel_int_example_labels)

text \<open>
  Claim C9 as stated fails on \<open>ToCategorical\<close>: constructed without \<open>num_classes\<close> and
  called on the labels \<open>[0, 2, 1]\<close>, the object holds \<open>num_classes = 3\<close> after the call.
\<close>

theorem ToCategorical_transform_writes_num_classes:
  "snd (ToCategorical_transform None example_labels) = Some 3
   \<and> snd (transform_of (ToCategorical_obj None) example_labels example_rng)
       \<noteq> ToCategorical_obj None"
  by (simp add: ToCategorical_transform_def ravel_int_example_labels np_max_def split: prod.splits)

text \<open>
  The stored value is used by the next call: after the labels \<open>[0, 2, 1]\<close>, the batch
  \<open>[0, 3]\<close> raises \<^verbatim>\<open>IndexError\<close>, where a fresh object encodes it with four classes.
  With \<open>num_classes = 3\<close> given, the labels \<open>[0, 2, 1]\<close> are encoded as the specification's
  example says.
\<close>

lemma ToCategorical_inferred_value_survives:
  "fst (ToCategorical_transform (snd (ToCategorical_transform None example_labels)) later_labels)
     = Inl IndexError
   \<and> map_sum id shape (fst (ToCategorical_transform None later_labels)) = Inr [2, 4]"
  by (simp add: ToCategorical_transform_def ravel_int_example_labels ravel_int_later_labels
      np_max_def one_hot_def)

lemma ToCategorical_spec_example:
  "map_sum id (\<lambda>a. map (\<lambda>i. map (\<lambda>j. item a [i, j]) [0, 1, 2]) [0, 1, 2])
      (fst (ToCategorical_transform (Some 3) example_labels))
     = Inr [[1, 0, 0], [0, 0, 1], [0, 1, 0]]"
  by (simp add: ToCategorical_transform_def ravel_int_example_labels one_hot_def)

end
